theory Spec2Isabelle
  imports Complex_Main "HOL-Library.AList"
begin

section \<open>Data model of the specification (xdmfSpecification)\<close>

text \<open>
  Values of C++ type \<open>unsigned long long\<close> and \<open>std::size_t\<close> (array extents, offsets,
  counts, time indices) are natural numbers: the program copies and compares them and
  counts upwards towards one of them, it never adds or multiplies two of them, so no
  wrap-around can occur. The \<open>int\<close> attribute \<open>Nc\<close> is an integer; a \<open>double\<close> time value
  is a real number, of which only the test \<open>< 0\<close> is ever taken.
\<close>

datatype FieldType = NONE | SCALAR | VECTOR | TENSOR | MATRIX

datatype FieldLocation = NODE | CELL

record Location =
  path :: string
  file' :: string

record FieldDescription =
  name :: string
  location :: Location
  shape :: "nat list"
  timeOffset :: nat
  componentOffset :: nat
  componentStride :: nat
  componentDimension :: nat
  fieldLocation :: FieldLocation
  fieldType :: FieldType
  hasTimeDimension :: bool

text \<open>
  Modelled from the spec: the accessors \<open>HasTimeDimension()\<close> and \<open>GetDimension()\<close> are
  declared in xdmfSpecification.hpp, which is not among the sources; the specification
  gives \<open>GetDimension() \<equiv> componentDimension\<close>, and \<open>HasTimeDimension()\<close> reads the flag.
\<close>

definition HasTimeDimension :: "FieldDescription \<Rightarrow> bool" where
  "HasTimeDimension d = hasTimeDimension d"

definition GetDimension :: "FieldDescription \<Rightarrow> nat" where
  "GetDimension d = componentDimension d"

section \<open>Errors\<close>

text \<open>
  Every way in which the C++ leaves the normal path is a value of \<open>error\<close>:
  the two \<open>std::runtime_error\<close>s thrown by the extractor, a failing access of the
  container (a missing child or attribute), and the reads that C++ leaves undefined:
  an index past the end of a \<open>std::vector\<close>, \<open>front()\<close> or \<open>back()\<close> of an empty one,
  and \<open>++\<close> on an \<open>int\<close> that holds \<open>INT_MAX\<close>.
\<close>

datatype error =
    CannotDetermineFieldType string
  | CannotDetermineGeometry
  | ContainerAccess
  | OutOfRange
  | IntOverflow

definition bindE :: "error + 'a \<Rightarrow> ('a \<Rightarrow> error + 'b) \<Rightarrow> error + 'b" where
  "bindE m f = (case m of Inl e \<Rightarrow> Inl e | Inr x \<Rightarrow> f x)"

definition subscript :: "'a list \<Rightarrow> nat \<Rightarrow> error + 'a" where
  "subscript xs i = (if i < length xs then Inr (xs ! i) else Inl OutOfRange)"

definition front :: "'a list \<Rightarrow> error + 'a" where
  "front xs = (case xs of [] \<Rightarrow> Inl OutOfRange | x # _ \<Rightarrow> Inr x)"

definition lastElem :: "'a list \<Rightarrow> error + 'a" where
  "lastElem xs = (if xs = [] then Inl OutOfRange else Inr (last xs))"

section \<open>The hierarchical container\<close>

text \<open>
  Modelled from the spec: the container reader \<open>HdfObject\<close> (hdfObject.hpp) is an external
  collaborator and not among the sources. Section 6 of the specification lists what the
  extractor uses of it: \<open>Name\<close>, \<open>Path\<close>, \<open>Contains\<close>, \<open>Get\<close>, \<open>Shape\<close>, \<open>HasAttribute\<close>,
  the typed read \<open>Attribute<T>\<close>, the untyped read \<open>AttributeString\<close>, \<open>Items\<close> and
  \<open>RawData\<close>. A node is a finite tree. An attribute always has a string reading and
  may have an integer reading; \<open>Get\<close> of a missing child, any read of a missing
  attribute and a typed read of an attribute without integer reading are
  container-access errors.
\<close>

datatype Attr = Attr (intValue: "int option") (stringValue: string)

datatype HdfObject =
  HdfObject (Name: string) (Path: string) (Shape: "nat list")
            (Attributes: "(string \<times> Attr) list") (Items: "HdfObject list")
            (RawData: "real list")

definition HasAttribute :: "HdfObject \<Rightarrow> string \<Rightarrow> bool" where
  "HasAttribute obj a = (map_of (Attributes obj) a \<noteq> None)"

definition AttributeInt :: "HdfObject \<Rightarrow> string \<Rightarrow> error + int" where
  "AttributeInt obj a =
     (case map_of (Attributes obj) a of
        Some (Attr (Some i) s) \<Rightarrow> Inr i
      | _ \<Rightarrow> Inl ContainerAccess)"

definition AttributeULL :: "HdfObject \<Rightarrow> string \<Rightarrow> error + nat" where
  "AttributeULL obj a =
     (case map_of (Attributes obj) a of
        Some (Attr (Some i) s) \<Rightarrow> Inr (nat (i mod 2 ^ 64))
      | _ \<Rightarrow> Inl ContainerAccess)"

definition AttributeString :: "HdfObject \<Rightarrow> string \<Rightarrow> error + string" where
  "AttributeString obj a =
     (case map_of (Attributes obj) a of
        Some (Attr i s) \<Rightarrow> Inr s
      | None \<Rightarrow> Inl ContainerAccess)"

definition child :: "HdfObject \<Rightarrow> string \<Rightarrow> HdfObject option" where
  "child obj n = find (\<lambda>c. Name c = n) (Items obj)"

definition Contains :: "HdfObject \<Rightarrow> string \<Rightarrow> bool" where
  "Contains obj n = (child obj n \<noteq> None)"

definition Get :: "HdfObject \<Rightarrow> string \<Rightarrow> error + HdfObject" where
  "Get obj n = (case child obj n of Some c \<Rightarrow> Inr c | None \<Rightarrow> Inl ContainerAccess)"

section \<open>std::to_string on unsigned values\<close>

definition digit :: "nat \<Rightarrow> char" where
  "digit n = ''0123456789'' ! n"

function to_string :: "nat \<Rightarrow> string" where
  "to_string n = (if n < 10 then [digit n] else to_string (n div 10) @ [digit (n mod 10)])"
  by pat_completeness auto
termination
  by (relation "measure id") auto

declare to_string.simps [simp del]

section \<open>Field inference (GenerateFieldsFromPetsc)\<close>

text \<open>The two look-up tables at the head of the extractor.\<close>

definition petscTypeLookUpFromFieldType :: "(string \<times> FieldType) list" where
  "petscTypeLookUpFromFieldType =
     [(''scalar'', SCALAR), (''vector'', VECTOR), (''tensor'', TENSOR), (''matrix'', MATRIX)]"

definition petscTypeLookUpFromNC :: "(int \<times> FieldType) list" where
  "petscTypeLookUpFromNC = [(1, SCALAR), (2, VECTOR), (3, VECTOR)]"

text \<open>
  Lines 13 to 22: the provisional description of one node. The conjunction
  \<open>HasAttribute && Attribute<int> > 0\<close> reads the attribute only when it exists.
\<close>

definition initialDescription ::
  "HdfObject \<Rightarrow> FieldLocation \<Rightarrow> string \<Rightarrow> nat \<Rightarrow> error + FieldDescription" where
  "initialDescription hdfField loc fileName tOffset =
     bindE (if HasAttribute hdfField ''timestepping''
            then bindE (AttributeInt hdfField ''timestepping'') (\<lambda>t. Inr (t > 0))
            else Inr False)
       (\<lambda>ht. Inr \<lparr> name = Name hdfField,
                   location = \<lparr> path = Path hdfField, file' = fileName \<rparr>,
                   shape = Shape hdfField,
                   timeOffset = tOffset,
                   componentOffset = 0,
                   componentStride = 1,
                   componentDimension = 0,
                   fieldLocation = loc,
                   fieldType = NONE,
                   hasTimeDimension = ht \<rparr>)"

text \<open>
  Lines 24 to 54: the field type and the flag \<open>separateIntoComponents\<close>, from the
  attributes \<open>vector_field_type\<close> and \<open>Nc\<close>.
\<close>

definition determineFieldType ::
  "HdfObject \<Rightarrow> FieldDescription \<Rightarrow> FieldLocation \<Rightarrow> error + (FieldType \<times> bool)" where
  "determineFieldType hdfField description loc =
     (if HasAttribute hdfField ''vector_field_type'' then
        bindE (AttributeString hdfField ''vector_field_type'') (\<lambda>vector_field_type.
          case map_of petscTypeLookUpFromFieldType vector_field_type of
            Some ft \<Rightarrow>
              if (ft = VECTOR \<and> length (shape description) < 3 \<and> loc = CELL
                    \<and> HasTimeDimension description)
                 \<or> (ft = VECTOR \<and> length (shape description) < 2 \<and> loc = CELL
                    \<and> \<not> HasTimeDimension description)
              then Inr (SCALAR, False)
              else Inr (ft, False)
          | None \<Rightarrow> Inr (NONE, False))
      else if HasAttribute hdfField ''Nc'' then
        bindE (AttributeInt hdfField ''Nc'') (\<lambda>nc.
          case map_of petscTypeLookUpFromNC nc of
            Some ft \<Rightarrow> Inr (ft, False)
          | None \<Rightarrow> if nc \<noteq> 0 then Inr (VECTOR, True) else Inr (NONE, False))
      else Inl (CannotDetermineFieldType (name description)))"

text \<open>
  Lines 56 to 64: a scalar of rank below three gets a trailing extent 1, a scalar of
  rank three or more is a packed field and is split.
\<close>

definition adjustScalar :: "FieldType \<Rightarrow> bool \<Rightarrow> nat list \<Rightarrow> nat list \<times> bool" where
  "adjustScalar ft separateIntoComponents shp =
     (if ft = SCALAR then
        (if length shp < 3 then (shp @ [1], separateIntoComponents) else (shp, True))
      else (shp, separateIntoComponents))"

text \<open>Line 67: \<open>shape.size() > 2 ? shape[2] : shape[1]\<close>, an unchecked read of the vector.\<close>

definition dimensionFromShape :: "nat list \<Rightarrow> error + nat" where
  "dimensionFromShape shp = (if length shp > 2 then subscript shp 2 else subscript shp 1)"

text \<open>
  Lines 13 to 67 together: the description as it stands when the emission starts, and
  the flag \<open>separateIntoComponents\<close>.
\<close>

definition analyseField ::
  "HdfObject \<Rightarrow> FieldLocation \<Rightarrow> string \<Rightarrow> nat \<Rightarrow> error + (FieldDescription \<times> bool)" where
  "analyseField hdfField loc fileName tOffset =
     bindE (initialDescription hdfField loc fileName tOffset) (\<lambda>d0.
     bindE (determineFieldType hdfField d0 loc) (\<lambda>(ft, sep0).
       let (shp, sep) = adjustScalar ft sep0 (shape d0) in
       bindE (dimensionFromShape shp) (\<lambda>dim.
         Inr (d0 \<lparr> fieldType := ft, shape := shp, componentDimension := dim \<rparr>, sep))))"

text \<open>Lines 74 to 79: the name of component \<open>c\<close>.\<close>

definition componentName :: "HdfObject \<Rightarrow> FieldDescription \<Rightarrow> nat \<Rightarrow> error + string" where
  "componentName hdfField description c =
     (let attributeName = ''componentName'' @ to_string c in
      if HasAttribute hdfField attributeName
      then bindE (AttributeString hdfField attributeName)
             (\<lambda>hdfComponentName. Inr (name description @ ''_'' @ hdfComponentName))
      else Inr (name description @ to_string c))"

text \<open>Lines 82 to 91: the description of component \<open>c\<close>.\<close>

definition componentFieldDescription :: "FieldDescription \<Rightarrow> string \<Rightarrow> nat \<Rightarrow> FieldDescription" where
  "componentFieldDescription description cname c =
     \<lparr> name = cname,
       location = location description,
       shape = shape description,
       timeOffset = timeOffset description,
       componentOffset = c,
       componentStride = GetDimension description,
       componentDimension = 1,
       fieldLocation = fieldLocation description,
       fieldType = SCALAR,
       hasTimeDimension = hasTimeDimension description \<rparr>"

text \<open>Lines 72 to 94: the loop \<open>for (c = 0; c < description.GetDimension(); c++)\<close>.\<close>

function componentLoop ::
  "HdfObject \<Rightarrow> FieldDescription \<Rightarrow> nat \<Rightarrow> FieldDescription list \<Rightarrow> error + FieldDescription list" where
  "componentLoop hdfField description c flds =
     (if c < GetDimension description then
        bindE (componentName hdfField description c) (\<lambda>cname.
          componentLoop hdfField description (c + 1)
            (flds @ [componentFieldDescription description cname c]))
      else Inr flds)"
  by pat_completeness auto
termination
  by (relation "measure (\<lambda>(h, d, c, fs). GetDimension d - c)") auto

declare componentLoop.simps [simp del]

text \<open>Lines 70 to 98: what one analysed node appends to \<open>fields\<close>.\<close>

definition emitFields ::
  "HdfObject \<Rightarrow> FieldDescription \<Rightarrow> bool \<Rightarrow> FieldDescription list \<Rightarrow> error + FieldDescription list" where
  "emitFields hdfField description separateIntoComponents flds =
     (if fieldType description \<noteq> NONE then
        (if separateIntoComponents then componentLoop hdfField description 0 flds
         else Inr (flds @ [description]))
      else Inr flds)"

text \<open>The whole function: the loop over the nodes, \<open>fields\<close> being the output parameter.\<close>

fun GenerateFieldsFromPetsc ::
  "FieldDescription list \<Rightarrow> HdfObject list \<Rightarrow> FieldLocation \<Rightarrow> string \<Rightarrow> nat
     \<Rightarrow> error + FieldDescription list" where
  "GenerateFieldsFromPetsc flds [] loc fileName tOffset = Inr flds"
| "GenerateFieldsFromPetsc flds (hdfField # hdfFields) loc fileName tOffset =
     bindE (analyseField hdfField loc fileName tOffset) (\<lambda>(description, sep).
     bindE (emitFields hdfField description sep flds) (\<lambda>flds'.
       GenerateFieldsFromPetsc flds' hdfFields loc fileName tOffset))"

text \<open>The name that lines 74 to 79 give component \<open>c\<close>, as a plain string.\<close>

definition componentNameOf :: "HdfObject \<Rightarrow> FieldDescription \<Rightarrow> nat \<Rightarrow> string" where
  "componentNameOf hdfField description c =
     (case AttributeString hdfField (''componentName'' @ to_string c) of
        Inr s \<Rightarrow> name description @ ''_'' @ s
      | Inl e \<Rightarrow> name description @ to_string c)"

section \<open>Topologies, grids, collections and the specification\<close>

text \<open>
  The record types of xdmfSpecification.hpp, with the fields that the two source files
  read and write. Field names that Isabelle cannot take as they are carry a prime:
  \<open>file'\<close>, \<open>location'\<close> (of a topology), \<open>fields'\<close> (of a grid), \<open>name'\<close> (of a
  collection).
\<close>

record TopologyDescription =
  location' :: Location
  number :: nat
  numberCorners :: nat
  dimension :: nat

record GridDescription =
  time :: real
  geometry :: FieldDescription
  topology :: TopologyDescription
  hybridTopology :: TopologyDescription
  fields' :: "FieldDescription list"

text \<open>
  The member \<open>grids\<close> is a \<open>std::map\<close> from time index to a vector of grids: an
  association list with ascending keys, which is also the order in which a range-for
  visits it.
\<close>

record GridCollectionDescription =
  name' :: string
  grids :: "(nat \<times> GridDescription list) list"

record Specification =
  gridsCollections :: "GridCollectionDescription list"

text \<open>
  \<open>m[k]\<close> on a \<open>std::map\<close>: the mapped value, and the map after the access, which has
  gained the key with a value-initialised (empty) vector when the key was absent.
\<close>

fun mapInsert :: "nat \<Rightarrow> 'v \<Rightarrow> (nat \<times> 'v) list \<Rightarrow> (nat \<times> 'v) list" where
  "mapInsert k v [] = [(k, v)]"
| "mapInsert k v ((j, w) # m) =
     (if k < j then (k, v) # (j, w) # m else (j, w) # mapInsert k v m)"

definition mapSubscript ::
  "(nat \<times> 'v list) list \<Rightarrow> nat \<Rightarrow> 'v list \<times> (nat \<times> 'v list) list" where
  "mapSubscript m k =
     (case map_of m k of Some v \<Rightarrow> (v, m) | None \<Rightarrow> ([], mapInsert k [] m))"

text \<open>\<open>m[k].push_back(g)\<close>.\<close>

definition mapPushBack ::
  "(nat \<times> 'v list) list \<Rightarrow> nat \<Rightarrow> 'v \<Rightarrow> (nat \<times> 'v list) list" where
  "mapPushBack m k g =
     (let (v, m') = mapSubscript m k in AList.update k (v @ [g]) m')"

section \<open>Declarations that the sources use and do not contain\<close>

text \<open>
  The headers xdmfSpecification.hpp and xdmfBuilder.hpp are not among the sources. What
  the two source files take from them, and the specification does not fix, is a
  parameter of the model, so that every statement holds however the headers define it:
  the accessor \<open>GetDof()\<close> of a field description; the string helpers \<open>Join\<close> (of
  integers) and \<open>JoinVector\<close> (of a shape, of a list of times); the default argument
  \<open>collectionType\<close> of \<open>GenerateSpatialGrid\<close>; the suffix \<open>GetTopologyPostfix\<close> of the
  indexed topology groups; the member defaults of a freshly constructed
  \<open>GridDescription\<close> (its vector of fields is empty in any case); and the name of a
  freshly constructed \<open>GridCollectionDescription\<close> (its map of grids is empty in any
  case).
\<close>

record Header =
  GetDof :: "FieldDescription \<Rightarrow> nat"
  Join :: "nat list \<Rightarrow> string"
  JoinVector :: "nat list \<Rightarrow> string"
  JoinVectorDouble :: "real list \<Rightarrow> string"
  defaultCollectionType :: string
  GetTopologyPostfix :: "int \<Rightarrow> string"
  defaultGridDescription :: GridDescription
  defaultCollectionName :: string

section \<open>The XML tree\<close>

text \<open>
  Modelled from the spec: \<open>XmlElement\<close> (xmlElement.hpp) is not among the sources; the
  specification calls it a thin tree builder without decision logic. An element has a
  name, a preamble (of the document root only), attributes, a text value and children
  in the order of their creation. \<open>e(a) = v\<close> sets attribute \<open>a\<close>, \<open>e() = v\<close> sets the
  text, \<open>e[n]\<close> appends a new empty child named \<open>n\<close> and returns a reference to it.

  The builder fills a child through that reference before it creates the next child of
  the same parent. So a C++ function that appends a child to its argument \<open>element\<close>
  and returns the reference is the HOL function that returns the child, complete, and
  the caller appends it (\<open>addChild\<close>); a C++ function that returns nothing that is
  used takes the element and returns it with the new children.
\<close>

datatype XmlElement =
  XmlElement (elementName: string) (preamble: string) (attributes: "(string \<times> string) list")
             (elementValue: string) (children: "XmlElement list")

definition newElement :: "string \<Rightarrow> XmlElement" where
  "newElement n = XmlElement n [] [] [] []"

definition setAttribute :: "string \<Rightarrow> string \<Rightarrow> XmlElement \<Rightarrow> XmlElement" where
  "setAttribute a v e =
     XmlElement (elementName e) (preamble e) (AList.update a v (attributes e))
                (elementValue e) (children e)"

definition setValue :: "string \<Rightarrow> XmlElement \<Rightarrow> XmlElement" where
  "setValue v e =
     XmlElement (elementName e) (preamble e) (attributes e) v (children e)"

definition addChild :: "XmlElement \<Rightarrow> XmlElement \<Rightarrow> XmlElement" where
  "addChild e c =
     XmlElement (elementName e) (preamble e) (attributes e) (elementValue e) (children e @ [c])"

definition attribute :: "XmlElement \<Rightarrow> string \<Rightarrow> string option" where
  "attribute e a = map_of (attributes e) a"

section \<open>The builder (xdmfBuilder.cpp)\<close>

definition DataItem :: string where
  "DataItem = ''DataItem''"

definition Grid :: string where
  "Grid = ''Grid''"

text \<open>The four static tables.\<close>

definition cellMap :: "(nat \<times> (nat \<times> string) list) list" where
  "cellMap =
     [(1, [(0, ''Polyvertex''), (1, ''Polyvertex''), (2, ''Polyline'')]),
      (2, [(0, ''Polyvertex''), (2, ''Polyline''), (3, ''Triangle''), (4, ''Quadrilateral'')]),
      (3, [(0, ''Polyvertex''), (4, ''Tetrahedron''), (6, ''Wedge''), (8, ''Hexahedron'')])]"

definition nodesPerCell :: "(nat \<times> (nat \<times> int) list) list" where
  "nodesPerCell = [(1, [(0, -1), (2, 2)]), (2, [(0, -1), (2, 2)]), (3, [(0, -1)])]"

definition typeMap :: "(FieldType \<times> string) list" where
  "typeMap = [(SCALAR, ''Scalar''), (VECTOR, ''Vector''), (TENSOR, ''Tensor6''), (MATRIX, ''Matrix'')]"

definition locationMap :: "(FieldLocation \<times> string) list" where
  "locationMap = [(NODE, ''Node''), (CELL, ''Cell'')]"

text \<open>
  \<open>table[k]\<close> on a static table of strings: \<open>operator[]\<close> of \<open>std::map\<close> does not fail on
  an absent key, it inserts a value-initialised entry, here the empty string (for
  \<open>cellMap[d]\<close> an empty inner map), and returns it. The entry it leaves behind is the
  value that the same access returns without it, so the tables are constants of the
  model.
\<close>

definition tableSubscript :: "('k \<times> string) list \<Rightarrow> 'k \<Rightarrow> string" where
  "tableSubscript table k = (case map_of table k of Some v \<Rightarrow> v | None \<Rightarrow> [])"

definition cellMapSubscript :: "nat \<Rightarrow> nat \<Rightarrow> string" where
  "cellMapSubscript d c =
     tableSubscript (case map_of cellMap d of Some inner \<Rightarrow> inner | None \<Rightarrow> []) c"

text \<open>
  Line 149 guards the read of \<open>nodesPerCell\<close> with \<open>count\<close> on both levels: the value
  when both keys are present.
\<close>

definition nodesPerCellFind :: "nat \<Rightarrow> nat \<Rightarrow> int option" where
  "nodesPerCellFind d c =
     (case map_of nodesPerCell d of Some inner \<Rightarrow> map_of inner c | None \<Rightarrow> None)"

text \<open>The entry of \<open>cellMap\<close> for a dimension and a number of corners, when there is one.\<close>

definition cellMapFind :: "nat \<Rightarrow> nat \<Rightarrow> string option" where
  "cellMapFind d c = (case map_of cellMap d of Some inner \<Rightarrow> map_of inner c | None \<Rightarrow> None)"

definition Hdf5PathToName :: "string \<Rightarrow> string" where
  "Hdf5PathToName hdf5Path = map (\<lambda>ch. if ch = CHR ''/'' then CHR ''_'' else ch) hdf5Path"

definition WriteCells :: "XmlElement \<Rightarrow> TopologyDescription \<Rightarrow> XmlElement" where
  "WriteCells element topologyDescription =
     addChild element
       (setValue (file' (location' topologyDescription) @ '':'' @ path (location' topologyDescription))
       (setAttribute ''Dimensions'' (to_string (number topologyDescription) @ '' ''
                                      @ to_string (numberCorners topologyDescription))
       (setAttribute ''NumberType'' ''Float''
       (setAttribute ''Precision'' ''8''
       (setAttribute ''Format'' ''HDF''
       (setAttribute ''ItemType'' ''Uniform''
       (setAttribute ''Name'' (Hdf5PathToName (path (location' topologyDescription)))
       (newElement DataItem))))))))"

text \<open>
  \<open>WriteData\<close>, lines 172 to 206. \<open>hyperSlabItem\<close> is the outer data item of the first
  branch with its two children, \<open>directItem\<close> the data item of the second branch.
\<close>

definition hyperSlabItem :: "Header \<Rightarrow> FieldDescription \<Rightarrow> XmlElement" where
  "hyperSlabItem hdr fieldDescription =
     (let dataItem =
            setAttribute ''Type'' ''HyperSlab''
           (setAttribute ''Dimensions''
              (Join hdr [1, GetDof hdr fieldDescription, GetDimension fieldDescription])
           (setAttribute ''ItemType'' ''HyperSlab''
           (newElement DataItem)));
          dataItemItem1 =
            setValue (Join hdr [timeOffset fieldDescription, 0, componentOffset fieldDescription]
                      @ '' '' @ Join hdr [1, 1, componentStride fieldDescription]
                      @ '' '' @ Join hdr [1, GetDof hdr fieldDescription, GetDimension fieldDescription])
           (setAttribute ''Format'' ''XML''
           (setAttribute ''Dimensions'' (Join hdr [3, 3])
           (newElement DataItem)));
          dataItemItem2 =
            setValue (file' (location fieldDescription) @ '':'' @ path (location fieldDescription))
           (setAttribute ''Precision'' ''8''
           (setAttribute ''Format'' ''HDF''
           (setAttribute ''Dimensions'' (JoinVector hdr (shape fieldDescription))
           (setAttribute ''DataType'' ''Float''
           (newElement DataItem)))))
      in addChild (addChild dataItem dataItemItem1) dataItemItem2)"

definition directItem :: "Header \<Rightarrow> FieldDescription \<Rightarrow> XmlElement" where
  "directItem hdr fieldDescription =
     setValue (file' (location fieldDescription) @ '':'' @ path (location fieldDescription))
    (setAttribute ''Precision'' ''8''
    (setAttribute ''Format'' ''HDF''
    (setAttribute ''Dimensions'' (JoinVector hdr (shape fieldDescription))
    (setAttribute ''DataType'' ''Float''
    (setAttribute ''Name'' (Hdf5PathToName (path (location fieldDescription)))
    (newElement DataItem))))))"

definition WriteData :: "Header \<Rightarrow> XmlElement \<Rightarrow> FieldDescription \<Rightarrow> XmlElement" where
  "WriteData hdr element fieldDescription =
     (if HasTimeDimension fieldDescription
      then addChild element (hyperSlabItem hdr fieldDescription)
      else addChild element (directItem hdr fieldDescription))"

definition WriteVertices :: "Header \<Rightarrow> XmlElement \<Rightarrow> FieldDescription \<Rightarrow> XmlElement" where
  "WriteVertices hdr element geometryDescription = WriteData hdr element geometryDescription"

definition WriteField :: "Header \<Rightarrow> XmlElement \<Rightarrow> FieldDescription \<Rightarrow> XmlElement" where
  "WriteField hdr element fieldDescription =
     addChild element
       (WriteData hdr
         (setAttribute ''Center'' (tableSubscript locationMap (fieldLocation fieldDescription))
         (setAttribute ''Type'' (tableSubscript typeMap (fieldType fieldDescription))
         (setAttribute ''Name'' (name fieldDescription)
         (newElement ''Attribute''))))
         fieldDescription)"

definition GenerateTimeGrid :: "Header \<Rightarrow> real list \<Rightarrow> XmlElement" where
  "GenerateTimeGrid hdr tm =
     (let gridItem =
            setAttribute ''CollectionType'' ''Temporal''
           (setAttribute ''GridType'' ''Collection''
           (setAttribute ''Name'' ''TimeSeries''
           (newElement Grid)));
          timeElement = setAttribute ''TimeType'' ''List'' (newElement ''Time'');
          dataItem =
            setValue (JoinVectorDouble hdr tm)
           (setAttribute ''Dimensions'' (to_string (length tm))
           (setAttribute ''NumberType'' ''Float''
           (setAttribute ''Format'' ''XML''
           (newElement DataItem))))
      in addChild gridItem (addChild timeElement dataItem))"

definition GenerateSpatialGrid :: "string \<Rightarrow> string \<Rightarrow> XmlElement" where
  "GenerateSpatialGrid domainName collectionType =
     (let hybridGridItem =
            setAttribute ''GridType'' ''Collection''
           (setAttribute ''Name'' domainName
           (newElement Grid))
      in if collectionType \<noteq> [] then setAttribute ''CollectionType'' collectionType hybridGridItem
         else hybridGridItem)"

definition GenerateSpaceGrid ::
  "Header \<Rightarrow> TopologyDescription \<Rightarrow> FieldDescription \<Rightarrow> string \<Rightarrow> XmlElement" where
  "GenerateSpaceGrid hdr topologyDescription geometryDescription domainName =
     (let gridItem =
            setAttribute ''GridType'' ''Uniform''
           (setAttribute ''Name'' domainName
           (newElement Grid));
          topology0 =
            setAttribute ''TopologyType''
              (cellMapSubscript (dimension topologyDescription) (numberCorners topologyDescription))
              (newElement ''Topology'');
          topology1 =
            (case nodesPerCellFind (dimension topologyDescription) (numberCorners topologyDescription) of
               Some nodesPerCellValue \<Rightarrow>
                 if nodesPerCellValue < 0
                 then setAttribute ''NodesPerElement'' (to_string (number topologyDescription)) topology0
                 else setAttribute ''NodesPerElement'' (to_string (nat nodesPerCellValue)) topology0
             | None \<Rightarrow> topology0);
          topology2 =
            (if numberCorners topologyDescription \<noteq> 0
             then WriteCells
                    (setAttribute ''NumberOfElements'' (to_string (number topologyDescription)) topology1)
                    topologyDescription
             else topology1);
          geometry0 =
            setAttribute ''GeometryType''
              (if GetDimension geometryDescription > 2 then ''XYZ'' else ''XY'')
              (newElement ''Geometry'')
      in addChild (addChild gridItem topology2) (WriteVertices hdr geometry0 geometryDescription))"

text \<open>
  Lines 73 to 86, the body of the loop over the grids of one time index:
  \<open>sharedBaseGrid\<close> comes in and goes out with the new children.
\<close>

definition writeGrid :: "Header \<Rightarrow> string \<Rightarrow> XmlElement \<Rightarrow> GridDescription \<Rightarrow> XmlElement" where
  "writeGrid hdr collectionName sharedBaseGrid grid =
     (let spaceGrid =
            foldl (WriteField hdr)
              (GenerateSpaceGrid hdr (topology grid) (geometry grid) collectionName)
              (fields' grid)
      in if number (hybridTopology grid) > 0
         then addChild sharedBaseGrid
                (addChild
                  (addChild (GenerateSpatialGrid collectionName (defaultCollectionType hdr))
                     (GenerateSpaceGrid hdr (hybridTopology grid) (geometry grid) collectionName))
                  spaceGrid)
         else addChild sharedBaseGrid spaceGrid)"

text \<open>
  Lines 69 to 86, what one time index writes: more than one grid under the index puts
  them into a spatial collection named after the collection.
\<close>

definition writeTimeIndex ::
  "Header \<Rightarrow> string \<Rightarrow> XmlElement \<Rightarrow> GridDescription list \<Rightarrow> XmlElement" where
  "writeTimeIndex hdr collectionName gridBase gridsHere =
     (if length gridsHere > 1
      then addChild gridBase
             (foldl (writeGrid hdr collectionName)
                (GenerateSpatialGrid collectionName ''Spatial'') gridsHere)
      else foldl (writeGrid hdr collectionName) gridBase gridsHere)"

text \<open>
  Lines 66 to 87, the loop \<open>for (timeIndex = 0; timeIndex < timeVector.size(); timeIndex++)\<close>:
  \<open>n\<close> is \<open>timeVector.size()\<close>; the element \<open>gridBase\<close> and the map \<open>grids\<close> of the
  collection are the state. Line 67 is the access \<open>grids[timeIndex]\<close> with the loop
  counter as the key.
\<close>

function timeLoop ::
  "Header \<Rightarrow> string \<Rightarrow> nat \<Rightarrow> nat \<Rightarrow> XmlElement \<Rightarrow> (nat \<times> GridDescription list) list
     \<Rightarrow> XmlElement \<times> (nat \<times> GridDescription list) list" where
  "timeLoop hdr collectionName n timeIndex gridBase gridsMap =
     (if timeIndex < n then
        (let (gridsHere, gridsMap') = mapSubscript gridsMap timeIndex
         in timeLoop hdr collectionName n (timeIndex + 1)
              (writeTimeIndex hdr collectionName gridBase gridsHere) gridsMap')
      else (gridBase, gridsMap))"
  by pat_completeness auto
termination
  by (relation "measure (\<lambda>(hdr, cn, n, i, b, m). n - i)") auto

declare timeLoop.simps [simp del]

text \<open>
  Lines 58 to 60: the time of the first grid of every index, \<open>front()\<close> of an empty
  vector being undefined.
\<close>

fun timeVectorOf ::
  "(nat \<times> GridDescription list) list \<Rightarrow> nat list \<Rightarrow> error + real list" where
  "timeVectorOf gridsMap [] = Inr []"
| "timeVectorOf gridsMap (timeIndex # timeIndexes) =
     bindE (front (fst (mapSubscript gridsMap timeIndex))) (\<lambda>g.
     bindE (timeVectorOf gridsMap timeIndexes) (\<lambda>ts. Inr (time g # ts)))"

text \<open>
  Lines 45 to 87, the body of the loop over the collections: the domain element and the
  collection are the state. The keys of line 47 exist in the map, so the accesses of
  lines 53 and 59 insert nothing.
\<close>

definition buildCollection ::
  "Header \<Rightarrow> XmlElement \<Rightarrow> GridCollectionDescription
     \<Rightarrow> error + (XmlElement \<times> GridCollectionDescription)" where
  "buildCollection hdr domainElement xdmfGridCollection =
     (let timeIndexes = sort (map fst (grids xdmfGridCollection)) in
      bindE (if grids xdmfGridCollection = [] \<or> timeIndexes = [] then Inr False
             else bindE (front (fst (mapSubscript (grids xdmfGridCollection) (timeIndexes ! 0))))
                    (\<lambda>g. Inr (\<not> time g < 0))) (\<lambda>useTime.
      bindE (timeVectorOf (grids xdmfGridCollection) timeIndexes) (\<lambda>timeVector.
        if useTime then
          (let (gridBase, gridsMap) =
                 timeLoop hdr (name' xdmfGridCollection) (length timeVector) 0
                   (GenerateTimeGrid hdr timeVector) (grids xdmfGridCollection)
           in Inr (addChild domainElement gridBase, xdmfGridCollection \<lparr> grids := gridsMap \<rparr>))
        else
          (let (gridBase, gridsMap) =
                 timeLoop hdr (name' xdmfGridCollection) (length timeVector) 0
                   domainElement (grids xdmfGridCollection)
           in Inr (gridBase, xdmfGridCollection \<lparr> grids := gridsMap \<rparr>)))))"

text \<open>Line 44: the loop over the collections of the specification.\<close>

fun buildCollections ::
  "Header \<Rightarrow> XmlElement \<Rightarrow> GridCollectionDescription list
     \<Rightarrow> error + (XmlElement \<times> GridCollectionDescription list)" where
  "buildCollections hdr domainElement [] = Inr (domainElement, [])"
| "buildCollections hdr domainElement (c # cs) =
     bindE (buildCollection hdr domainElement c) (\<lambda>(domainElement', c').
     bindE (buildCollections hdr domainElement' cs) (\<lambda>(domainElement'', cs').
       Inr (domainElement'', c' # cs')))"

text \<open>
  \<open>Build\<close>: the document, and the specification as the call leaves it (the builder
  holds it through a shared pointer and iterates over it by non-const reference).
\<close>

definition Build :: "Header \<Rightarrow> Specification \<Rightarrow> error + (XmlElement \<times> Specification)" where
  "Build hdr specification =
     (let documentPointer =
            XmlElement ''Xdmf''
              (''<?xml version='' @ [CHR 0x22] @ ''1.0'' @ [CHR 0x22] @ '' ?>'' @ [CHR 0x0A]
               @ ''<!DOCTYPE Xdmf SYSTEM '' @ [CHR 0x22] @ ''Xdmf.dtd'' @ [CHR 0x22] @ '' []>'')
              [] [] [];
          domainElement = setAttribute ''Name'' ''domain'' (newElement ''Domain'')
      in bindE (buildCollections hdr domainElement (gridsCollections specification))
           (\<lambda>(domainElement', collections).
              Inr (addChild documentPointer domainElement',
                   specification \<lparr> gridsCollections := collections \<rparr>)))"

section \<open>The extractor (FromPetscHdf)\<close>

text \<open>
  \<open>FindPetscHdfChild\<close>, lines 346 to 354: the child under \<open>viz\<close> when \<open>viz\<close> exists and
  has it, else the direct child, else the null pointer. Both \<open>Get\<close>s of the source are
  guarded by \<open>Contains\<close>, so the function cannot fail.
\<close>

definition FindPetscHdfChild :: "HdfObject \<Rightarrow> string \<Rightarrow> HdfObject option" where
  "FindPetscHdfChild rootObj n =
     (case child rootObj ''viz'' of
        Some viz \<Rightarrow> (case child viz n of Some c \<Rightarrow> Some c | None \<Rightarrow> child rootObj n)
      | None \<Rightarrow> child rootObj n)"

text \<open>\<open>Contains("time") ? Get("time")->RawData<double>() : {-1}\<close>.\<close>

definition timeValues :: "HdfObject \<Rightarrow> real list" where
  "timeValues rootObj = (case child rootObj ''time'' of Some t \<Rightarrow> RawData t | None \<Rightarrow> [-1])"

text \<open>
  The geometry read from a \<open>vertices\<close> or \<open>coordinates\<close> node (lines 126 to 129, 187 to
  189, 251 to 254, 315 to 318): the members that the source does not assign keep the
  value of the default-constructed grid.
\<close>

definition geometryFrom :: "Header \<Rightarrow> HdfObject \<Rightarrow> string \<Rightarrow> error + FieldDescription" where
  "geometryFrom hdr verticesObject hdf5File =
     bindE (if length (Shape verticesObject) > 2 then subscript (Shape verticesObject) 2
            else lastElem (Shape verticesObject)) (\<lambda>dim.
       Inr ((geometry (defaultGridDescription hdr))
              \<lparr> name := Name verticesObject,
                location := \<lparr> path = Path verticesObject, file' = hdf5File \<rparr>,
                shape := Shape verticesObject,
                fieldLocation := NODE,
                fieldType := VECTOR,
                componentDimension := dim \<rparr>))"

text \<open>Lines 132 to 139 and 257 to 264: the topology from \<open>topologyObject\<close>'s child \<open>cells\<close>.\<close>

definition topologyFrom ::
  "Header \<Rightarrow> HdfObject \<Rightarrow> string \<Rightarrow> error + TopologyDescription" where
  "topologyFrom hdr topologyObject hdf5File =
     bindE (Get topologyObject ''cells'') (\<lambda>cellObject.
     bindE (subscript (Shape cellObject) 0) (\<lambda>n.
     bindE (subscript (Shape cellObject) 1) (\<lambda>corners.
     bindE (AttributeULL cellObject ''cell_dim'') (\<lambda>dim.
       Inr ((topology (defaultGridDescription hdr))
              \<lparr> location' := \<lparr> path = Path cellObject, file' = hdf5File \<rparr>,
                number := n,
                numberCorners := corners,
                dimension := dim \<rparr>)))))"

text \<open>
  Lines 141 to 148 and 266 to 273: the hybrid topology. The group \<open>hybrid_topology\<close> is
  looked up in the root; the node \<open>hcells\<close> is then taken from \<open>topologyObject\<close>.
\<close>

definition hybridTopologyFrom ::
  "Header \<Rightarrow> HdfObject \<Rightarrow> HdfObject \<Rightarrow> string \<Rightarrow> error + TopologyDescription" where
  "hybridTopologyFrom hdr rootObj topologyObject hdf5File =
     (case FindPetscHdfChild rootObj ''hybrid_topology'' of
        Some hybridTopologyObject \<Rightarrow>
          bindE (Get topologyObject ''hcells'') (\<lambda>cellObject.
          bindE (subscript (Shape cellObject) 0) (\<lambda>n.
          bindE (subscript (Shape cellObject) 1) (\<lambda>corners.
            Inr ((hybridTopology (defaultGridDescription hdr))
                   \<lparr> location' := \<lparr> path = Path cellObject, file' = hdf5File \<rparr>,
                     number := n,
                     numberCorners := corners \<rparr>))))
      | None \<Rightarrow> Inr (hybridTopology (defaultGridDescription hdr)))"

text \<open>
  \<open>if (root->Contains(group)) GenerateFieldsFromPetsc(fields, root->Get(group)->Items(), ...)\<close>.
\<close>

definition fieldsFromGroup ::
  "FieldDescription list \<Rightarrow> HdfObject \<Rightarrow> string \<Rightarrow> FieldLocation \<Rightarrow> string \<Rightarrow> nat
     \<Rightarrow> error + FieldDescription list" where
  "fieldsFromGroup flds rootObj groupName loc hdf5File tOffset =
     (case child rootObj groupName of
        Some g \<Rightarrow> GenerateFieldsFromPetsc flds (Items g) loc hdf5File tOffset
      | None \<Rightarrow> Inr flds)"

text \<open>
  One mesh grid: lines 122 to 156 with the time \<open>time[timeIndex]\<close>, the field groups with
  the topology's suffix and the time index as offset; lines 247 to 281 with the time
  \<open>time[0]\<close>, the unsuffixed field groups and the offset 0.
\<close>

definition meshGridDescription ::
  "Header \<Rightarrow> HdfObject \<Rightarrow> HdfObject \<Rightarrow> HdfObject \<Rightarrow> string \<Rightarrow> real \<Rightarrow> string \<Rightarrow> nat
     \<Rightarrow> error + GridDescription" where
  "meshGridDescription hdr rootObj geometryObject topologyObject hdf5File tm postfix tOffset =
     bindE (Get geometryObject ''vertices'') (\<lambda>verticesObject.
     bindE (geometryFrom hdr verticesObject hdf5File) (\<lambda>geo.
     bindE (topologyFrom hdr topologyObject hdf5File) (\<lambda>topo.
     bindE (hybridTopologyFrom hdr rootObj topologyObject hdf5File) (\<lambda>hybrid.
     bindE (fieldsFromGroup [] rootObj (''vertex_fields'' @ postfix) NODE hdf5File tOffset) (\<lambda>flds.
     bindE (fieldsFromGroup flds rootObj (''cell_fields'' @ postfix) CELL hdf5File tOffset) (\<lambda>flds'.
       Inr \<lparr> time = tm, geometry = geo, topology = topo, hybridTopology = hybrid,
             fields' = flds' \<rparr>))))))"

text \<open>
  \<open>std::find_if\<close> for the field named \<open>DMSwarmPIC_coor\<close> and \<open>erase\<close> of the element
  found: the first such field, and the list without it.
\<close>

fun takeField :: "string \<Rightarrow> FieldDescription list \<Rightarrow> (FieldDescription \<times> FieldDescription list) option" where
  "takeField n [] = None"
| "takeField n (f # fs) =
     (if name f = n then Some (f, fs)
      else (case takeField n fs of Some (g, fs') \<Rightarrow> Some (g, f # fs') | None \<Rightarrow> None))"

text \<open>One particle grid: lines 176 to 206 and 304 to 335.\<close>

definition particleGridDescription ::
  "Header \<Rightarrow> HdfObject \<Rightarrow> string \<Rightarrow> real \<Rightarrow> nat \<Rightarrow> error + GridDescription" where
  "particleGridDescription hdr rootObj hdf5File tm tOffset =
     bindE (fieldsFromGroup [] rootObj ''particle_fields'' NODE hdf5File tOffset) (\<lambda>flds.
     bindE (if Contains rootObj ''particles'' then
              bindE (Get rootObj ''particles'') (\<lambda>particles.
              bindE (Get particles ''coordinates'') (\<lambda>geometryObjectLocal.
              bindE (geometryFrom hdr geometryObjectLocal hdf5File) (\<lambda>geo. Inr (geo, flds))))
            else (case takeField ''DMSwarmPIC_coor'' flds of
                    Some (gridField, flds') \<Rightarrow> Inr (gridField, flds')
                  | None \<Rightarrow> Inl CannotDetermineGeometry)) (\<lambda>(geo, flds').
       Inr \<lparr> time = tm, geometry = geo,
             topology = (topology (defaultGridDescription hdr))
               \<lparr> location' := \<lparr> path = [], file' = hdf5File \<rparr>,
                 number := GetDof hdr geo,
                 numberCorners := 0,
                 dimension := GetDimension geo \<rparr>,
             hybridTopology = hybridTopology (defaultGridDescription hdr),
             fields' = flds' \<rparr>))"

subsection \<open>The single root\<close>

text \<open>
  Lines 121 to 159, the loop \<open>for (timeIndex = 0; timeIndex < time.size(); timeIndex++)\<close>
  of one topology; \<open>tms\<close> is what is left of the time array from \<open>timeIndex\<close> on.
\<close>

fun meshTimeLoop ::
  "Header \<Rightarrow> HdfObject \<Rightarrow> HdfObject \<Rightarrow> HdfObject \<Rightarrow> string \<Rightarrow> string \<Rightarrow> real list \<Rightarrow> nat
     \<Rightarrow> GridCollectionDescription \<Rightarrow> error + GridCollectionDescription" where
  "meshTimeLoop hdr rootObj geometryObject topologyObject hdf5File postfix [] timeIndex mainGrid =
     Inr mainGrid"
| "meshTimeLoop hdr rootObj geometryObject topologyObject hdf5File postfix (tm # tms) timeIndex mainGrid =
     (case meshGridDescription hdr rootObj geometryObject topologyObject hdf5File tm postfix timeIndex of
        Inl e \<Rightarrow> Inl e
      | Inr gridDescription \<Rightarrow>
          meshTimeLoop hdr rootObj geometryObject topologyObject hdf5File postfix tms (timeIndex + 1)
            (mainGrid \<lparr> grids := mapPushBack (grids mainGrid) timeIndex gridDescription \<rparr>))"

text \<open>
  Lines 115 to 161, the loop over the topologies \<open>topology\<close>, \<open>topology_1\<close>, ...: the
  counter is an \<open>int\<close>, whose increment past \<open>INT_MAX\<close> is undefined.
\<close>

function topologyLoop ::
  "Header \<Rightarrow> HdfObject \<Rightarrow> HdfObject \<Rightarrow> string \<Rightarrow> int \<Rightarrow> GridCollectionDescription
     \<Rightarrow> error + GridCollectionDescription" where
  "topologyLoop hdr rootObj geometryObject hdf5File topologyIndex mainGrid =
     (case FindPetscHdfChild rootObj (''topology'' @ GetTopologyPostfix hdr topologyIndex) of
        None \<Rightarrow> Inr mainGrid
      | Some topologyObject \<Rightarrow>
          (case meshTimeLoop hdr rootObj geometryObject topologyObject hdf5File
                  (GetTopologyPostfix hdr topologyIndex) (timeValues rootObj) 0 mainGrid of
             Inl e \<Rightarrow> Inl e
           | Inr mainGrid' \<Rightarrow>
               if topologyIndex < 2147483647
               then topologyLoop hdr rootObj geometryObject hdf5File (topologyIndex + 1) mainGrid'
               else Inl IntOverflow))"
  by pat_completeness auto
termination
  by (relation "measure (\<lambda>(hdr, rootObj, g, f, i, m). nat (2147483647 - i))") auto

declare topologyLoop.simps [simp del]

text \<open>Lines 175 to 209, the loop over the times of the particle domain.\<close>

fun particleTimeLoop ::
  "Header \<Rightarrow> HdfObject \<Rightarrow> string \<Rightarrow> real list \<Rightarrow> nat
     \<Rightarrow> GridCollectionDescription \<Rightarrow> error + GridCollectionDescription" where
  "particleTimeLoop hdr rootObj hdf5File [] timeIndex particleGrid = Inr particleGrid"
| "particleTimeLoop hdr rootObj hdf5File (tm # tms) timeIndex particleGrid =
     (case particleGridDescription hdr rootObj hdf5File tm timeIndex of
        Inl e \<Rightarrow> Inl e
      | Inr gridDescription \<Rightarrow>
          particleTimeLoop hdr rootObj hdf5File tms (timeIndex + 1)
            (particleGrid \<lparr> grids := mapPushBack (grids particleGrid) timeIndex gridDescription \<rparr>))"

text \<open>\<open>FromPetscHdf(rootObject)\<close>, lines 102 to 216.\<close>

definition FromPetscHdf :: "Header \<Rightarrow> HdfObject \<Rightarrow> error + Specification" where
  "FromPetscHdf hdr rootObject =
     (let hdf5File = Name rootObject in
      bindE (case FindPetscHdfChild rootObject ''geometry'' of
               Some geometryObject \<Rightarrow>
                 bindE (topologyLoop hdr rootObject geometryObject hdf5File 0
                          \<lparr> name' = defaultCollectionName hdr, grids = [] \<rparr>)
                   (\<lambda>mainGrid. Inr [mainGrid])
             | None \<Rightarrow> Inr []) (\<lambda>collections.
      bindE (if Contains rootObject ''particles'' \<or> Contains rootObject ''particle_fields''
             then bindE (particleTimeLoop hdr rootObject hdf5File (timeValues rootObject) 0
                           \<lparr> name' = ''particle_domain'', grids = [] \<rparr>)
                    (\<lambda>particleGrid. Inr (collections @ [particleGrid]))
             else Inr collections) (\<lambda>collections'.
        Inr \<lparr> gridsCollections = collections' \<rparr>)))"

subsection \<open>The supplier of roots\<close>

text \<open>
  Lines 232 to 235 and 290 to 294: \<open>if (gridsCollections.empty()) emplace_back();\<close>
  followed by \<open>gridsCollections.back()\<close>; \<open>updateBack\<close> writes through that reference.
  The source takes the reference of a vector that it has just made non-empty, so the
  first equation of \<open>updateBack\<close> is never used.
\<close>

definition ensureBack :: "Header \<Rightarrow> GridCollectionDescription list \<Rightarrow> GridCollectionDescription list" where
  "ensureBack hdr collections =
     (if collections = [] then [\<lparr> name' = defaultCollectionName hdr, grids = [] \<rparr>]
      else collections)"

fun updateBack ::
  "(GridCollectionDescription \<Rightarrow> GridCollectionDescription)
     \<Rightarrow> GridCollectionDescription list \<Rightarrow> GridCollectionDescription list" where
  "updateBack f [] = []"
| "updateBack f [c] = [f c]"
| "updateBack f (c # cs) = c # updateBack f cs"

text \<open>
  Lines 238 to 285, the loop over the topologies of one root: every topology pushes one
  grid, with the first time value, under the key \<open>timeIndexCount\<close> of the last
  collection.
\<close>

function topologyLoopAt ::
  "Header \<Rightarrow> HdfObject \<Rightarrow> HdfObject \<Rightarrow> nat \<Rightarrow> int \<Rightarrow> GridCollectionDescription list
     \<Rightarrow> error + GridCollectionDescription list" where
  "topologyLoopAt hdr hdf5Object geometryObject timeIndexCount topologyIndex collections =
     (case FindPetscHdfChild hdf5Object (''topology'' @ GetTopologyPostfix hdr topologyIndex) of
        None \<Rightarrow> Inr collections
      | Some topologyObject \<Rightarrow>
          (case bindE (subscript (timeValues hdf5Object) 0) (\<lambda>tm.
                  meshGridDescription hdr hdf5Object geometryObject topologyObject
                    (Name hdf5Object) tm [] 0) of
             Inl e \<Rightarrow> Inl e
           | Inr gridDescription \<Rightarrow>
               if topologyIndex < 2147483647
               then topologyLoopAt hdr hdf5Object geometryObject timeIndexCount (topologyIndex + 1)
                      (updateBack (\<lambda>c. c \<lparr> grids := mapPushBack (grids c) timeIndexCount gridDescription \<rparr>)
                         collections)
               else Inl IntOverflow))"
  by pat_completeness auto
termination
  by (relation "measure (\<lambda>(hdr, rootObj, g, k, i, m). nat (2147483647 - i))") auto

declare topologyLoopAt.simps [simp del]

text \<open>Lines 303 to 338, the loop \<open>for (double timeIndex : time)\<close> of the particle domain.\<close>

fun particleLoopAt ::
  "Header \<Rightarrow> HdfObject \<Rightarrow> nat \<Rightarrow> real list \<Rightarrow> GridCollectionDescription list
     \<Rightarrow> error + GridCollectionDescription list" where
  "particleLoopAt hdr hdf5Object timeIndexCount [] collections = Inr collections"
| "particleLoopAt hdr hdf5Object timeIndexCount (tm # tms) collections =
     (case particleGridDescription hdr hdf5Object (Name hdf5Object) tm 0 of
        Inl e \<Rightarrow> Inl e
      | Inr gridDescription \<Rightarrow>
          particleLoopAt hdr hdf5Object timeIndexCount tms
            (updateBack (\<lambda>c. c \<lparr> grids := mapPushBack (grids c) timeIndexCount gridDescription \<rparr>)
               collections))"

text \<open>
  Lines 227 to 340, the body of the loop over the roots, without the increment of
  \<open>timeIndexCount\<close>: what one root does to \<open>specification->gridsCollections\<close>.
\<close>

definition consumeRoot ::
  "Header \<Rightarrow> HdfObject \<Rightarrow> nat \<Rightarrow> GridCollectionDescription list
     \<Rightarrow> error + GridCollectionDescription list" where
  "consumeRoot hdr hdf5Object timeIndexCount collections =
     bindE (case FindPetscHdfChild hdf5Object ''geometry'' of
              Some geometryObject \<Rightarrow>
                topologyLoopAt hdr hdf5Object geometryObject timeIndexCount 0
                  (ensureBack hdr collections)
            | None \<Rightarrow> Inr collections) (\<lambda>collections'.
       if Contains hdf5Object ''particles'' \<or> Contains hdf5Object ''particle_fields''
       then particleLoopAt hdr hdf5Object timeIndexCount (timeValues hdf5Object)
              (updateBack (\<lambda>c. c \<lparr> name' := ''particle_domain'' \<rparr>) (ensureBack hdr collections'))
       else Inr collections')"

text \<open>
  Lines 226 to 341, \<open>while (auto hdf5Object = consumer())\<close>. The supplier is a C++
  callable with a state of its own: a function from its state to the root it hands out
  (\<open>None\<close> for the null pointer) and its next state. A supplier that never hands out
  the null pointer keeps the loop running for ever: the result \<open>None\<close>.
\<close>

partial_function (option) consumeLoop ::
  "Header \<Rightarrow> ('s \<Rightarrow> HdfObject option \<times> 's) \<Rightarrow> 's \<Rightarrow> nat \<Rightarrow> GridCollectionDescription list
     \<Rightarrow> (error + GridCollectionDescription list) option" where
  "consumeLoop hdr consumer st timeIndexCount collections =
     (case consumer st of
        (None, st') \<Rightarrow> Some (Inr collections)
      | (Some hdf5Object, st') \<Rightarrow>
          (case consumeRoot hdr hdf5Object timeIndexCount collections of
             Inl e \<Rightarrow> Some (Inl e)
           | Inr collections' \<Rightarrow>
               consumeLoop hdr consumer st' (timeIndexCount + 1) collections'))"

declare consumeLoop.simps [code]

text \<open>\<open>FromPetscHdf(consumer)\<close>, lines 218 to 344.\<close>

definition FromPetscHdfConsumer ::
  "Header \<Rightarrow> ('s \<Rightarrow> HdfObject option \<times> 's) \<Rightarrow> 's \<Rightarrow> (error + Specification) option" where
  "FromPetscHdfConsumer hdr consumer st =
     map_option (map_sum id (\<lambda>collections. \<lparr> gridsCollections = collections \<rparr>))
       (consumeLoop hdr consumer st 0 [])"

text \<open>
  The invariant of the extractor's output: every time index of the collection has at
  least one grid.
\<close>

definition nonEmptyGrids :: "GridCollectionDescription \<Rightarrow> bool" where
  "nonEmptyGrids c = list_all (\<lambda>(k, gs). gs \<noteq> []) (grids c)"

text \<open>What the loop over the roots maintains: the invariant, in at most one collection.\<close>

definition wellFormed :: "GridCollectionDescription list \<Rightarrow> bool" where
  "wellFormed cs \<longleftrightarrow> list_all nonEmptyGrids cs \<and> length cs \<le> 1"

text \<open>A supplier that hands out the roots of a list, one after the other.\<close>

fun fromList :: "HdfObject list \<Rightarrow> HdfObject option \<times> HdfObject list" where
  "fromList [] = (None, [])"
| "fromList (r # rs) = (Some r, rs)"

section \<open>Inputs of the worked examples\<close>


definition ncNode :: "int \<Rightarrow> HdfObject" where
  "ncNode nc = HdfObject ''velocity'' ''/particle_fields/velocity'' [7, 3]
     [(''Nc'', Attr (Some nc) [])] [] []"

definition flatNcNode :: "int \<Rightarrow> HdfObject" where
  "flatNcNode nc = HdfObject ''velocity'' ''/particle_fields/velocity'' [7]
     [(''Nc'', Attr (Some nc) [])] [] []"

definition ncDescription :: FieldDescription where
  "ncDescription = \<lparr> name = ''velocity'',
     location = \<lparr> path = ''/particle_fields/velocity'', file' = ''out.h5'' \<rparr>,
     shape = [7, 3], timeOffset = 0, componentOffset = 0, componentStride = 1,
     componentDimension = 0, fieldLocation = NODE, fieldType = NONE,
     hasTimeDimension = False \<rparr>"

definition vectorNode :: "nat list \<Rightarrow> int \<Rightarrow> HdfObject" where
  "vectorNode shp ts = HdfObject ''u'' ''/cell_fields/u'' shp
     [(''vector_field_type'', Attr None ''vector''), (''timestepping'', Attr (Some ts) [])] [] []"

definition vectorDescription :: "nat list \<Rightarrow> FieldLocation \<Rightarrow> bool \<Rightarrow> FieldDescription" where
  "vectorDescription shp loc ht = \<lparr> name = ''u'',
     location = \<lparr> path = ''/cell_fields/u'', file' = ''out.h5'' \<rparr>,
     shape = shp, timeOffset = 0, componentOffset = 0, componentStride = 1,
     componentDimension = 0, fieldLocation = loc, fieldType = NONE,
     hasTimeDimension = ht \<rparr>"

text \<open>Reading a document: the elements of a given name, in document order.\<close>

fun elementsNamed :: "string \<Rightarrow> XmlElement \<Rightarrow> XmlElement list" where
  "elementsNamed n (XmlElement nm p a v cs) =
     (if nm = n then [XmlElement nm p a v cs] else []) @ concat (map (elementsNamed n) cs)"

definition topologyTypes :: "XmlElement \<Rightarrow> string option list" where
  "topologyTypes doc = map (\<lambda>e. attribute e ''TopologyType'') (elementsNamed ''Topology'' doc)"

text \<open>
  An instance of the missing declarations, for the examples: the degrees of freedom are
  the extent before the component extent, the joins separate decimal numbers by a
  blank (times are cut to their integer part), collections are unnamed by default and
  the topology suffix is \<open>_i\<close> from index 1 on.
\<close>

definition joinWith :: "string \<Rightarrow> string list \<Rightarrow> string" where
  "joinWith sep xs = (case xs of [] \<Rightarrow> [] | x # ys \<Rightarrow> foldl (\<lambda>acc y. acc @ sep @ y) x ys)"

definition exampleGrid :: "GridDescription" where
  "exampleGrid =
     \<lparr> time = -1,
       geometry = \<lparr> name = ''vertices'',
                    location = \<lparr> path = ''/geometry/vertices'', file' = ''mesh.h5'' \<rparr>,
                    shape = [10, 3], timeOffset = 0, componentOffset = 0, componentStride = 1,
                    componentDimension = 3, fieldLocation = NODE, fieldType = VECTOR,
                    hasTimeDimension = False \<rparr>,
       topology = \<lparr> location' = \<lparr> path = ''/topology/cells'', file' = ''mesh.h5'' \<rparr>,
                    number = 5, numberCorners = 4, dimension = 3 \<rparr>,
       hybridTopology = \<lparr> location' = \<lparr> path = [], file' = [] \<rparr>,
                    number = 0, numberCorners = 0, dimension = 0 \<rparr>,
       fields' = [] \<rparr>"

definition emptyGrid :: "GridDescription" where
  "emptyGrid =
     \<lparr> time = 0,
       geometry = \<lparr> name = [], location = \<lparr> path = [], file' = [] \<rparr>,
                    shape = [], timeOffset = 0, componentOffset = 0, componentStride = 1,
                    componentDimension = 0, fieldLocation = NODE, fieldType = NONE,
                    hasTimeDimension = False \<rparr>,
       topology = \<lparr> location' = \<lparr> path = [], file' = [] \<rparr>,
                    number = 0, numberCorners = 0, dimension = 0 \<rparr>,
       hybridTopology = \<lparr> location' = \<lparr> path = [], file' = [] \<rparr>,
                    number = 0, numberCorners = 0, dimension = 0 \<rparr>,
       fields' = [] \<rparr>"

definition exampleHeader :: Header where
  "exampleHeader =
     \<lparr> GetDof = (\<lambda>fd. if length (shape fd) > 2 then shape fd ! 1 else hd (shape fd @ [0])),
       Join = (\<lambda>xs. joinWith '' '' (map to_string xs)),
       JoinVector = (\<lambda>xs. joinWith '' '' (map to_string xs)),
       JoinVectorDouble = (\<lambda>ts. joinWith '' '' (map (\<lambda>t. to_string (nat \<lfloor>t\<rfloor>)) ts)),
       defaultCollectionType = [],
       GetTopologyPostfix = (\<lambda>i. if i = 0 then [] else ''_'' @ to_string (nat i)),
       defaultGridDescription = emptyGrid,
       defaultCollectionName = [] \<rparr>"

text \<open>
  A collection whose only time index is 1: what the supplier overload extracts from a
  root without any domain followed by the mesh root \<open>meshRoot\<close> below.
\<close>

definition gappedSpecification :: Specification where
  "gappedSpecification =
     \<lparr> gridsCollections = [\<lparr> name' = [], grids = [(1, [exampleGrid])] \<rparr>] \<rparr>"

text \<open>A mesh of six cells with five corners in three dimensions.\<close>

definition pyramidSpecification :: Specification where
  "pyramidSpecification =
     \<lparr> gridsCollections =
         [\<lparr> name' = ''domain'',
            grids = [(0, [exampleGrid \<lparr> topology :=
                       \<lparr> location' = \<lparr> path = ''/topology/cells'', file' = ''mesh.h5'' \<rparr>,
                         number = 6, numberCorners = 5, dimension = 3 \<rparr> \<rparr>])] \<rparr>] \<rparr>"

text \<open>A cell field with a time dimension, seen at time index 2, and its component 1.\<close>

definition timeField :: FieldDescription where
  "timeField =
     \<lparr> name = ''u'', location = \<lparr> path = ''/cell_fields/u'', file' = ''mesh.h5'' \<rparr>,
       shape = [4, 5, 3], timeOffset = 2, componentOffset = 1, componentStride = 3,
       componentDimension = 1, fieldLocation = CELL, fieldType = SCALAR,
       hasTimeDimension = True \<rparr>"

text \<open>Roots for the examples: a mesh, a mesh with a hybrid topology, a mesh with particles.\<close>

definition verticesNode :: HdfObject where
  "verticesNode = HdfObject ''vertices'' ''/geometry/vertices'' [10, 3] [] [] []"

definition geometryGroup :: HdfObject where
  "geometryGroup = HdfObject ''geometry'' ''/geometry'' [] [] [verticesNode] []"

definition cellsNode :: HdfObject where
  "cellsNode = HdfObject ''cells'' ''/topology/cells'' [5, 4] [(''cell_dim'', Attr (Some 3) ''3'')] [] []"

definition topologyGroup :: "HdfObject list \<Rightarrow> HdfObject" where
  "topologyGroup extra = HdfObject ''topology'' ''/topology'' [] [] (cellsNode # extra) []"

definition hybridGroup :: HdfObject where
  "hybridGroup = HdfObject ''hybrid_topology'' ''/hybrid_topology'' [] []
     [HdfObject ''hcells'' ''/hybrid_topology/hcells'' [2, 6] [] [] []] []"

definition particlesGroup :: HdfObject where
  "particlesGroup = HdfObject ''particles'' ''/particles'' [] []
     [HdfObject ''coordinates'' ''/particles/coordinates'' [20, 3] [] [] []] []"

definition emptyRoot :: HdfObject where
  "emptyRoot = HdfObject ''restart.h5'' ''/'' [] [] [] []"

definition meshRoot :: HdfObject where
  "meshRoot = HdfObject ''mesh.h5'' ''/'' [] [] [geometryGroup, topologyGroup []] []"

definition hybridRoot :: "HdfObject list \<Rightarrow> HdfObject" where
  "hybridRoot extra = HdfObject ''mesh.h5'' ''/'' [] [] [geometryGroup, topologyGroup extra, hybridGroup] []"

definition bothRoot :: HdfObject where
  "bothRoot = HdfObject ''mesh.h5'' ''/'' [] [] [geometryGroup, topologyGroup [], particlesGroup] []"

definition exampleParticleGrid :: GridDescription where
  "exampleParticleGrid =
     \<lparr> time = -1,
       geometry = \<lparr> name = ''coordinates'',
                    location = \<lparr> path = ''/particles/coordinates'', file' = ''mesh.h5'' \<rparr>,
                    shape = [20, 3], timeOffset = 0, componentOffset = 0, componentStride = 1,
                    componentDimension = 3, fieldLocation = NODE, fieldType = VECTOR,
                    hasTimeDimension = False \<rparr>,
       topology = \<lparr> location' = \<lparr> path = [], file' = ''mesh.h5'' \<rparr>,
                    number = 20, numberCorners = 0, dimension = 3 \<rparr>,
       hybridTopology = \<lparr> location' = \<lparr> path = [], file' = [] \<rparr>,
                    number = 0, numberCorners = 0, dimension = 0 \<rparr>,
       fields' = [] \<rparr>"

text \<open>The specification of the plain mesh, and a collection whose time index 0 has no grid.\<close>

definition meshSpecification :: Specification where
  "meshSpecification = \<lparr> gridsCollections = [\<lparr> name' = [], grids = [(0, [exampleGrid])] \<rparr>] \<rparr>"

definition hollowCollection :: GridCollectionDescription where
  "hollowCollection = \<lparr> name' = ''domain'', grids = [(0, [])] \<rparr>"

section \<open>Properties of the field inference\<close>

lemma bindE_Inr [simp]: "bindE (Inr x) f = f x"
  by (simp add: bindE_def)

lemma bindE_Inl [simp]: "bindE (Inl e) f = Inl e"
  by (simp add: bindE_def)

lemma bindE_eq_Inr: "bindE m f = Inr y \<longleftrightarrow> (\<exists>x. m = Inr x \<and> f x = Inr y)"
  by (cases m) simp_all

lemma AttributeString_has:
  "HasAttribute obj a \<Longrightarrow> \<exists>s. AttributeString obj a = Inr s"
  by (auto simp: HasAttribute_def AttributeString_def split: Attr.splits option.splits)

lemma AttributeInt_has: "AttributeInt obj a = Inr i \<Longrightarrow> HasAttribute obj a"
  by (auto simp: HasAttribute_def AttributeInt_def split: Attr.splits option.splits)

lemma AttributeString_has': "AttributeString obj a = Inr i \<Longrightarrow> HasAttribute obj a"
  by (auto simp: HasAttribute_def AttributeString_def split: Attr.splits option.splits)

lemma componentName_eq:
  "componentName hdfField description c = Inr (componentNameOf hdfField description c)"
  by (auto simp: componentName_def componentNameOf_def Let_def HasAttribute_def AttributeString_def
      split: option.splits Attr.splits)

lemma componentLoop_eq:
  "componentLoop hdfField d c flds =
     Inr (flds @ map (\<lambda>c. componentFieldDescription d (componentNameOf hdfField d c) c)
                    [c..<GetDimension d])"
proof (induction hdfField d c flds rule: componentLoop.induct)
  case (1 hdfField d c flds)
  show ?case
  proof (cases "c < GetDimension d")
    case True
    then show ?thesis
      using "1.IH" [OF True, of "componentNameOf hdfField d c"]
      by (subst componentLoop.simps) (simp add: componentName_eq upt_conv_Cons)
  next
    case False
    then show ?thesis by (subst componentLoop.simps) simp
  qed
qed

lemma initialDescription_fields:
  assumes "initialDescription h loc fn t = Inr d0"
  shows "name d0 = Name h" "location d0 = \<lparr>path = Path h, file' = fn\<rparr>" "shape d0 = Shape h"
    "timeOffset d0 = t" "componentOffset d0 = 0" "componentStride d0 = 1"
    "fieldLocation d0 = loc" "fieldType d0 = NONE"
  using assms by (auto simp: initialDescription_def bindE_eq_Inr split: if_splits)

lemma nc_lookup:
  "map_of petscTypeLookUpFromNC nc =
     (if nc = 1 then Some SCALAR else if nc = 2 \<or> nc = 3 then Some VECTOR else None)"
  by (simp add: petscTypeLookUpFromNC_def)





lemma GenerateFieldsFromPetsc_single:
  "analyseField h loc fn t = Inr (d, sep) \<Longrightarrow>
   GenerateFieldsFromPetsc flds [h] loc fn t = emitFields h d sep flds"
  by (cases "emitFields h d sep flds") simp_all


lemmas eval_defs = analyseField_def initialDescription_def determineFieldType_def
  adjustScalar_def dimensionFromShape_def subscript_def HasAttribute_def AttributeInt_def
  AttributeString_def petscTypeLookUpFromNC_def petscTypeLookUpFromFieldType_def
  HasTimeDimension_def GetDimension_def


lemma analyseField_unadjusted:
  assumes "initialDescription h loc fn t = Inr d0"
    and "determineFieldType h d0 loc = Inr (ft, sep)"
    and "ft \<noteq> SCALAR" and "2 \<le> length (Shape h)"
  shows "analyseField h loc fn t =
     Inr (d0 \<lparr> fieldType := ft,
               componentDimension := (if 2 < length (Shape h) then Shape h ! 2 else Shape h ! 1) \<rparr>,
          sep)"
  using assms initialDescription_fields(3) [OF assms(1)]
  by (simp add: analyseField_def adjustScalar_def dimensionFromShape_def subscript_def)

text \<open>
  A node without \<open>vector_field_type\<close> whose attribute \<open>Nc\<close> reads as the integer \<open>nc\<close>:
  the type is \<open>SCALAR\<close> for 1, \<open>VECTOR\<close> without splitting for 2 and 3, \<open>VECTOR\<close> with
  \<open>separateIntoComponents\<close> set for every other value but 0, and \<open>NONE\<close> for 0. Where
  line 67 reads inside the shape (a raw shape of rank two or more), a node with \<open>Nc\<close> 2
  or 3 appends its one description, of type \<open>VECTOR\<close>; a node with another non-zero
  \<open>Nc\<close> is split and appends one \<open>SCALAR\<close> description for each component; a node with
  \<open>Nc = 0\<close> appends nothing.
\<close>

lemma Nc_field_type:
  assumes "\<not> HasAttribute hdfField ''vector_field_type''"
    and "AttributeInt hdfField ''Nc'' = Inr nc"
    and "initialDescription hdfField loc fileName tOffset = Inr d0"
  shows "determineFieldType hdfField d0 loc =
           Inr (if nc = 1 then (SCALAR, False)
                else if nc = 2 \<or> nc = 3 then (VECTOR, False)
                else if nc \<noteq> 0 then (VECTOR, True)
                else (NONE, False))
    \<and> (2 \<le> length (Shape hdfField) \<longrightarrow>
         (nc = 2 \<or> nc = 3 \<longrightarrow>
            GenerateFieldsFromPetsc flds [hdfField] loc fileName tOffset =
              Inr (flds @ [d0 \<lparr> fieldType := VECTOR,
                      componentDimension := (if 2 < length (Shape hdfField)
                         then Shape hdfField ! 2 else Shape hdfField ! 1) \<rparr>]))
       \<and> (nc \<notin> {0, 1, 2, 3} \<longrightarrow>
            analyseField hdfField loc fileName tOffset =
              Inr (d0 \<lparr> fieldType := VECTOR,
                      componentDimension := (if 2 < length (Shape hdfField)
                         then Shape hdfField ! 2 else Shape hdfField ! 1) \<rparr>, True)
            \<and> (\<exists>components.
                 GenerateFieldsFromPetsc flds [hdfField] loc fileName tOffset =
                   Inr (flds @ components)
                 \<and> length components = (if 2 < length (Shape hdfField)
                         then Shape hdfField ! 2 else Shape hdfField ! 1)
                 \<and> list_all (\<lambda>f. fieldType f = SCALAR) components))
       \<and> (nc = 0 \<longrightarrow>
            GenerateFieldsFromPetsc flds [hdfField] loc fileName tOffset = Inr flds))"
proof -
  have ty: "determineFieldType hdfField d0 loc =
           Inr (if nc = 1 then (SCALAR, False)
                else if nc = 2 \<or> nc = 3 then (VECTOR, False)
                else if nc \<noteq> 0 then (VECTOR, True)
                else (NONE, False))"
    using assms(1,2) AttributeInt_has [OF assms(2)]
    by (simp add: determineFieldType_def nc_lookup)
  have v: "GenerateFieldsFromPetsc flds [hdfField] loc fileName tOffset =
              Inr (flds @ [d0 \<lparr> fieldType := VECTOR,
                      componentDimension := (if 2 < length (Shape hdfField)
                         then Shape hdfField ! 2 else Shape hdfField ! 1) \<rparr>])"
    if "2 \<le> length (Shape hdfField)" "nc = 2 \<or> nc = 3"
  proof -
    from that ty have "determineFieldType hdfField d0 loc = Inr (VECTOR, False)" by auto
    from analyseField_unadjusted [OF assms(3) this _ that(1)]
    show ?thesis by (simp add: emitFields_def)
  qed
  have p: "analyseField hdfField loc fileName tOffset =
              Inr (d0 \<lparr> fieldType := VECTOR,
                      componentDimension := (if 2 < length (Shape hdfField)
                         then Shape hdfField ! 2 else Shape hdfField ! 1) \<rparr>, True)"
    if "2 \<le> length (Shape hdfField)" "nc \<notin> {0, 1, 2, 3}"
  proof -
    from that ty have "determineFieldType hdfField d0 loc = Inr (VECTOR, True)" by auto
    from analyseField_unadjusted [OF assms(3) this _ that(1)]
    show ?thesis by simp
  qed
  have q: "\<exists>components.
      GenerateFieldsFromPetsc flds [hdfField] loc fileName tOffset = Inr (flds @ components)
      \<and> length components = (if 2 < length (Shape hdfField)
                         then Shape hdfField ! 2 else Shape hdfField ! 1)
      \<and> list_all (\<lambda>f. fieldType f = SCALAR) components"
    if "2 \<le> length (Shape hdfField)" "nc \<notin> {0, 1, 2, 3}"
    unfolding GenerateFieldsFromPetsc_single [OF p [OF that]]
    by (simp add: emitFields_def componentLoop_eq GetDimension_def list_all_iff
        componentFieldDescription_def)
  have z: "GenerateFieldsFromPetsc flds [hdfField] loc fileName tOffset = Inr flds"
    if "2 \<le> length (Shape hdfField)" "nc = 0"
  proof -
    from that ty have "determineFieldType hdfField d0 loc = Inr (NONE, False)" by auto
    from analyseField_unadjusted [OF assms(3) this _ that(1)]
    show ?thesis by (simp add: emitFields_def)
  qed
  from ty v p q z show ?thesis by blast
qed

lemma Nc_field_type_examples:
  "GenerateFieldsFromPetsc [] [ncNode 3] NODE ''out.h5'' 0 =
      Inr [ncDescription \<lparr> fieldType := VECTOR, componentDimension := 3 \<rparr>]
   \<and> GenerateFieldsFromPetsc [] [ncNode 0] NODE ''out.h5'' 0 = Inr []
   \<and> analyseField (ncNode 5) NODE ''out.h5'' 0 =
      Inr (ncDescription \<lparr> fieldType := VECTOR, componentDimension := 3 \<rparr>, True)
   \<and> determineFieldType (ncNode 1) ncDescription NODE = Inr (SCALAR, False)"
proof -
  have a: "\<not> HasAttribute (ncNode nc) ''vector_field_type''" for nc
    by (simp add: ncNode_def HasAttribute_def)
  have b: "AttributeInt (ncNode nc) ''Nc'' = Inr nc" for nc
    by (simp add: ncNode_def AttributeInt_def)
  have c: "initialDescription (ncNode nc) NODE ''out.h5'' 0 = Inr ncDescription" for nc
    by (simp add: ncNode_def ncDescription_def initialDescription_def HasAttribute_def)
  have s: "Shape (ncNode nc) = [7, 3]" for nc
    by (simp add: ncNode_def)
  show ?thesis
    using Nc_field_type [OF a b c, of 3 "[]"] Nc_field_type [OF a b c, of 0 "[]"]
      Nc_field_type [OF a b c, of 5 "[]"] Nc_field_type [OF a b c, of 1 "[]"]
    by (simp add: s)
qed

text \<open>
  Lines 26 to 39 on a node whose attribute \<open>vector_field_type\<close> is found in the table
  with the type \<open>VECTOR\<close>: the type is \<open>SCALAR\<close> exactly when the location is \<open>CELL\<close> and
  the rank of the raw shape is below 3 with a time dimension, below 2 without;
  otherwise it stays \<open>VECTOR\<close>. The field is not marked for splitting.
\<close>

lemma degenerate_vector:
  assumes "initialDescription hdfField loc fileName tOffset = Inr d0"
    and "AttributeString hdfField ''vector_field_type'' = Inr s"
    and "map_of petscTypeLookUpFromFieldType s = Some VECTOR"
  shows "determineFieldType hdfField d0 loc =
           Inr (if loc = CELL \<and> length (Shape hdfField) < (if hasTimeDimension d0 then 3 else 2)
                then SCALAR else VECTOR, False)"
  using assms(2,3) initialDescription_fields(3)[OF assms(1)] AttributeString_has'[OF assms(2)]
  by (auto simp: determineFieldType_def HasTimeDimension_def)

lemma degenerate_vector_examples:
  "determineFieldType (vectorNode [4, 5] 1) (vectorDescription [4, 5] CELL True) CELL = Inr (SCALAR, False)
   \<and> determineFieldType (vectorNode [4, 5] 0) (vectorDescription [4, 5] CELL False) CELL = Inr (VECTOR, False)
   \<and> determineFieldType (vectorNode [5] 0) (vectorDescription [5] CELL False) CELL = Inr (SCALAR, False)
   \<and> determineFieldType (vectorNode [5, 3] 0) (vectorDescription [5, 3] NODE False) NODE = Inr (VECTOR, False)"
proof -
  have a: "initialDescription (vectorNode shp ts) loc ''out.h5'' 0 = Inr (vectorDescription shp loc (0 < ts))"
    for shp ts loc
    by (simp add: vectorNode_def vectorDescription_def initialDescription_def HasAttribute_def
        AttributeInt_def)
  have b: "AttributeString (vectorNode shp ts) ''vector_field_type'' = Inr ''vector''" for shp ts
    by (simp add: vectorNode_def AttributeString_def)
  have c: "map_of petscTypeLookUpFromFieldType ''vector'' = Some VECTOR"
    by (simp add: petscTypeLookUpFromFieldType_def)
  have s: "Shape (vectorNode shp ts) = shp" for shp ts
    by (simp add: vectorNode_def)
  show ?thesis
    using degenerate_vector [OF a b c, of "[4, 5]" 1 CELL]
      degenerate_vector [OF a b c, of "[4, 5]" 0 CELL]
      degenerate_vector [OF a b c, of "[5]" 0 CELL]
      degenerate_vector [OF a b c, of "[5, 3]" 0 NODE]
    by (simp add: s vectorDescription_def)
qed

subsection \<open>The unchecked read of line 67\<close>

text \<open>
  Line 67 of the extractor reads \<open>shape[1]\<close> whenever the shape, after the adjustment
  of a scalar, has rank two or less. The geometry of a grid (lines 129, 189, 254, 318) takes
  \<open>shape.back()\<close> in that place, which exists for rank one. A field that is not a
  scalar and has a raw shape of rank below two is read past the end.
\<close>

lemma analyseField_out_of_range:
  assumes "initialDescription h loc fn t = Inr d0"
    and "determineFieldType h d0 loc = Inr (ft, sep)"
    and "ft \<noteq> SCALAR" and "length (Shape h) < 2"
  shows "analyseField h loc fn t = Inl OutOfRange"
  using assms initialDescription_fields(3) [OF assms(1)]
  by (simp add: analyseField_def adjustScalar_def dimensionFromShape_def subscript_def)

lemma dimensionFromShape_appended:
  assumes "length shp < 3"
  shows "dimensionFromShape (shp @ [1]) = (if shp = [] then Inl OutOfRange else Inr 1)"
proof -
  from assms consider "length shp = 0" | "length shp = 1" | "length shp = 2" by linarith
  then show ?thesis
  proof cases
    case 1
    then show ?thesis by (simp add: dimensionFromShape_def subscript_def)
  next
    case 2
    then have "shp \<noteq> []" "(shp @ [1]) ! 1 = 1" by (auto simp: nth_append)
    with 2 show ?thesis by (simp add: dimensionFromShape_def subscript_def)
  next
    case 3
    then have "shp \<noteq> []" "(shp @ [1]) ! 2 = 1" by (auto simp: nth_append)
    with 3 show ?thesis by (simp add: dimensionFromShape_def subscript_def)
  qed
qed

lemma analyseField_scalar:
  assumes "initialDescription h loc fn t = Inr d0"
    and "determineFieldType h d0 loc = Inr (SCALAR, sep)"
    and "length (Shape h) < 3"
  shows "analyseField h loc fn t =
     (if Shape h = [] then Inl OutOfRange
      else Inr (d0 \<lparr> fieldType := SCALAR, shape := Shape h @ [1], componentDimension := 1 \<rparr>, sep))"
  using assms initialDescription_fields(3) [OF assms(1)]
    dimensionFromShape_appended [OF assms(3)]
  by (simp add: analyseField_def adjustScalar_def)

lemma GenerateFieldsFromPetsc_failed:
  "analyseField h loc fn t = Inl e \<Longrightarrow> GenerateFieldsFromPetsc flds [h] loc fn t = Inl e"
  by simp

text \<open>
  What \<open>GenerateFieldsFromPetsc\<close> makes of a node tagged as vector, for every shape:
  the downgraded field is appended as a \<open>SCALAR\<close> with a trailing extent 1, the other
  as a \<open>VECTOR\<close>, and below rank one, respectively two, line 67 is out of range.
\<close>

lemma vector_field_emitted:
  assumes "initialDescription hdfField loc fileName tOffset = Inr d0"
    and "AttributeString hdfField ''vector_field_type'' = Inr s"
    and "map_of petscTypeLookUpFromFieldType s = Some VECTOR"
  shows "GenerateFieldsFromPetsc flds [hdfField] loc fileName tOffset =
     (if loc = CELL \<and> length (Shape hdfField) < (if hasTimeDimension d0 then 3 else 2)
      then (if Shape hdfField = [] then Inl OutOfRange
            else Inr (flds @ [d0 \<lparr> fieldType := SCALAR, shape := Shape hdfField @ [1],
                                     componentDimension := 1 \<rparr>]))
      else (if length (Shape hdfField) < 2 then Inl OutOfRange
            else Inr (flds @ [d0 \<lparr> fieldType := VECTOR,
                     componentDimension := (if 2 < length (Shape hdfField)
                        then Shape hdfField ! 2 else Shape hdfField ! 1) \<rparr>])))"
proof -
  define down where
    "down \<longleftrightarrow> loc = CELL \<and> length (Shape hdfField) < (if hasTimeDimension d0 then 3 else 2)"
  have ty: "determineFieldType hdfField d0 loc = Inr (if down then SCALAR else VECTOR, False)"
    using degenerate_vector [OF assms] by (simp add: down_def)
  have "GenerateFieldsFromPetsc flds [hdfField] loc fileName tOffset =
     (if down
      then (if Shape hdfField = [] then Inl OutOfRange
            else Inr (flds @ [d0 \<lparr> fieldType := SCALAR, shape := Shape hdfField @ [1],
                                     componentDimension := 1 \<rparr>]))
      else (if length (Shape hdfField) < 2 then Inl OutOfRange
            else Inr (flds @ [d0 \<lparr> fieldType := VECTOR,
                     componentDimension := (if 2 < length (Shape hdfField)
                        then Shape hdfField ! 2 else Shape hdfField ! 1) \<rparr>])))"
  proof (cases down)
    case True
    with ty have ty': "determineFieldType hdfField d0 loc = Inr (SCALAR, False)" by simp
    from True have "length (Shape hdfField) < 3" by (auto simp: down_def split: if_splits)
    from analyseField_scalar [OF assms(1) ty' this] True show ?thesis
      by (cases "Shape hdfField = []")
         (simp_all add: GenerateFieldsFromPetsc_single emitFields_def)
  next
    case False
    with ty have ty': "determineFieldType hdfField d0 loc = Inr (VECTOR, False)" by simp
    show ?thesis
    proof (cases "length (Shape hdfField) < 2")
      case True
      from analyseField_out_of_range [OF assms(1) ty' _ True] False True show ?thesis by simp
    next
      case r: False
      then have "2 \<le> length (Shape hdfField)" by simp
      from analyseField_unadjusted [OF assms(1) ty' _ this] False r show ?thesis
        by (simp add: GenerateFieldsFromPetsc_single emitFields_def)
    qed
  qed
  then show ?thesis by (simp only: down_def)
qed

text \<open>
  A node with an \<open>Nc\<close> other than 1 and a raw shape of rank below two ends in the
  out-of-range read, whatever its type.
\<close>

lemma Nc_field_low_rank:
  assumes "\<not> HasAttribute hdfField ''vector_field_type''"
    and "AttributeInt hdfField ''Nc'' = Inr nc"
    and "initialDescription hdfField loc fileName tOffset = Inr d0"
    and "nc \<noteq> 1" and "length (Shape hdfField) < 2"
  shows "GenerateFieldsFromPetsc flds [hdfField] loc fileName tOffset = Inl OutOfRange"
proof -
  have ty: "determineFieldType hdfField d0 loc =
      Inr (if nc = 2 \<or> nc = 3 then VECTOR else if nc \<noteq> 0 then VECTOR else NONE,
           nc \<noteq> 2 \<and> nc \<noteq> 3 \<and> nc \<noteq> 0)"
    using assms(1,2,4) AttributeInt_has [OF assms(2)]
    by (simp add: determineFieldType_def nc_lookup)
  have "(if nc = 2 \<or> nc = 3 then VECTOR else if nc \<noteq> 0 then VECTOR else NONE) \<noteq> SCALAR"
    by simp
  from analyseField_out_of_range [OF assms(3) ty this assms(5)] show ?thesis by simp
qed


text \<open>
  Claim C9 fails on the code. A particle field of the flat shape 7 with \<open>Nc\<close> 0, 2 or 5
  is typed as the claim says, but line 67 reads \<open>shape[1]\<close> of a vector of one element
  before line 70 drops, appends or splits the field. With the shape 7 by 3 the field
  with \<open>Nc = 0\<close> is dropped and the field with \<open>Nc = 2\<close> is appended as one \<open>VECTOR\<close>.
\<close>

theorem nc_rank1_out_of_range:
  "GenerateFieldsFromPetsc [] [flatNcNode 0] NODE ''out.h5'' 0 = Inl OutOfRange
   \<and> GenerateFieldsFromPetsc [] [flatNcNode 2] NODE ''out.h5'' 0 = Inl OutOfRange
   \<and> GenerateFieldsFromPetsc [] [flatNcNode 5] NODE ''out.h5'' 0 = Inl OutOfRange
   \<and> GenerateFieldsFromPetsc [] [ncNode 0] NODE ''out.h5'' 0 = Inr []
   \<and> GenerateFieldsFromPetsc [] [ncNode 2] NODE ''out.h5'' 0 =
       Inr [ncDescription \<lparr> fieldType := VECTOR, componentDimension := 3 \<rparr>]"
  by (simp add: flatNcNode_def ncNode_def ncDescription_def eval_defs emitFields_def)

section \<open>Properties of the builder\<close>

lemma attribute_simps [simp]:
  "attribute (newElement n) b = None"
  "attribute (setAttribute a v e) b = (if b = a then Some v else attribute e b)"
  "attribute (setValue v e) b = attribute e b"
  "attribute (addChild e c) b = attribute e b"
  by (simp_all add: attribute_def newElement_def setAttribute_def setValue_def addChild_def
      update_conv')

lemma children_simps [simp]:
  "children (newElement n) = []"
  "children (setAttribute a v e) = children e"
  "children (setValue v e) = children e"
  "children (addChild e c) = children e @ [c]"
  by (simp_all add: newElement_def setAttribute_def setValue_def addChild_def)

lemma elementValue_simps [simp]:
  "elementValue (newElement n) = []"
  "elementValue (setAttribute a v e) = elementValue e"
  "elementValue (setValue v e) = v"
  "elementValue (addChild e c) = elementValue e"
  by (simp_all add: newElement_def setAttribute_def setValue_def addChild_def)

lemma elementName_simps [simp]:
  "elementName (newElement n) = n"
  "elementName (setAttribute a v e) = elementName e"
  "elementName (setValue v e) = elementName e"
  "elementName (addChild e c) = elementName e"
  by (simp_all add: newElement_def setAttribute_def setValue_def addChild_def)

lemmas builder_defs = Build_def buildCollection_def mapSubscript_def front_def
  writeTimeIndex_def writeGrid_def GenerateSpaceGrid_def GenerateSpatialGrid_def GenerateTimeGrid_def
  WriteVertices_def WriteData_def WriteCells_def WriteField_def directItem_def hyperSlabItem_def
  HasTimeDimension_def GetDimension_def cellMapSubscript_def tableSubscript_def
  nodesPerCellFind_def cellMap_def nodesPerCell_def typeMap_def locationMap_def
  newElement_def setAttribute_def setValue_def addChild_def Hdf5PathToName_def
  DataItem_def Grid_def Let_def

lemma map_of_mapInsert:
  "k \<notin> fst ` set m \<Longrightarrow> map_of (mapInsert k v m) = (map_of m)(k \<mapsto> v)"
  by (induction m) (auto simp: fun_upd_twist)

lemma mapSubscript_stable:
  "fst (mapSubscript (snd (mapSubscript m i)) j) = fst (mapSubscript m j)"
proof (cases "map_of m i")
  case None
  then have "i \<notin> fst ` set m" by (simp add: map_of_eq_None_iff)
  from map_of_mapInsert [OF this] None show ?thesis
    by (simp add: mapSubscript_def split: option.splits)
next
  case (Some v)
  then show ?thesis by (simp add: mapSubscript_def)
qed

lemma mapSubscript_present_unchanged:
  "i \<in> fst ` set m \<Longrightarrow> snd (mapSubscript m i) = m"
  by (cases "map_of m i") (auto simp: mapSubscript_def map_of_eq_None_iff)

text \<open>
  What the loop of lines 66 to 87 visits: the counters \<open>i, ..., n - 1\<close>, whatever the
  keys of the map are, and every counter is inserted into the map by the access.
\<close>

lemma timeLoop_counter:
  "timeLoop hdr nm n i b m =
     (foldl (\<lambda>b k. writeTimeIndex hdr nm b (fst (mapSubscript m k))) b [i..<n],
      foldl (\<lambda>m k. snd (mapSubscript m k)) m [i..<n])"
proof (induction hdr nm n i b m rule: timeLoop.induct)
  case (1 hdr nm n i b m)
  show ?case
  proof (cases "i < n")
    case True
    obtain v m' where sub: "mapSubscript m i = (v, m')" by (cases "mapSubscript m i")
    have st: "fst (mapSubscript m' k) = fst (mapSubscript m k)" for k
      using mapSubscript_stable [of m i k] sub by simp
    from "1.IH" [OF True sub [symmetric] refl] True sub show ?thesis
      by (subst timeLoop.simps) (simp add: upt_conv_Cons st)
  next
    case False
    then show ?thesis by (subst timeLoop.simps) simp
  qed
qed

lemma foldl_touch_unchanged:
  "(\<And>k. k \<in> set ks \<Longrightarrow> k \<in> fst ` set m) \<Longrightarrow> foldl (\<lambda>m k. snd (mapSubscript m k)) m ks = m"
  by (induction ks) (simp_all add: mapSubscript_present_unchanged)

lemma timeLoop_contiguous_unchanged:
  "(\<And>k. k < n \<Longrightarrow> k \<in> fst ` set m) \<Longrightarrow> snd (timeLoop hdr nm n 0 b m) = m"
  using foldl_touch_unchanged [of "[0..<n]" m]
  by (simp add: timeLoop_counter)

lemma timeVectorOf_length: "timeVectorOf m ks = Inr ts \<Longrightarrow> length ts = length ks"
  by (induction ks arbitrary: ts) (auto simp: bindE_eq_Inr)

lemma buildCollection_contiguous_unchanged:
  assumes "\<And>k. k < length (grids c) \<Longrightarrow> k \<in> fst ` set (grids c)"
    and "buildCollection hdr de c = Inr (de', c')"
  shows "c' = c"
proof -
  have K: "y = grids c"
    if "timeLoop hdr (name' c) (length ts) 0 b (grids c) = (x, y)"
      and "timeVectorOf (grids c) (sort (map fst (grids c))) = Inr ts" for ts b x y
  proof -
    from timeVectorOf_length [OF that(2)] have "length ts = length (grids c)" by simp
    with assms(1) have "snd (timeLoop hdr (name' c) (length ts) 0 b (grids c)) = grids c"
      by (simp add: timeLoop_contiguous_unchanged)
    with that(1) show ?thesis by simp
  qed
  from assms(2) show ?thesis
    by (auto simp: buildCollection_def Let_def bindE_eq_Inr split: if_splits prod.splits dest: K)
qed

lemma buildCollections_contiguous_unchanged:
  "(\<And>c k. c \<in> set cs \<Longrightarrow> k < length (grids c) \<Longrightarrow> k \<in> fst ` set (grids c)) \<Longrightarrow>
   buildCollections hdr de cs = Inr (de', cs') \<Longrightarrow> cs' = cs"
proof (induction cs arbitrary: de de' cs')
  case Nil
  then show ?case by simp
next
  case (Cons c cs)
  from Cons.prems(2) obtain d1 c1 d2 cs2 where
    1: "buildCollection hdr de c = Inr (d1, c1)"
    and 2: "buildCollections hdr d1 cs = Inr (d2, cs2)"
    and 3: "cs' = c1 # cs2"
    by (auto simp: bindE_eq_Inr)
  from buildCollection_contiguous_unchanged [OF _ 1] Cons.prems(1) have "c1 = c" by simp
  moreover from Cons.IH [OF _ 2] Cons.prems(1) have "cs2 = cs" by simp
  ultimately show ?case using 3 by simp
qed

text \<open>
  When the keys of every collection include \<open>0, ..., n - 1\<close>, \<open>n\<close> being the number of
  entries, \<open>Build\<close> leaves the specification as it was.
\<close>

lemma Build_contiguous_unchanged:
  assumes "\<And>c k. c \<in> set (gridsCollections spec) \<Longrightarrow> k < length (grids c)
             \<Longrightarrow> k \<in> fst ` set (grids c)"
    and "Build hdr spec = Inr (doc, specB)"
  shows "specB = spec"
proof -
  from assms(2) obtain d cs where
    1: "buildCollections hdr (setAttribute ''Name'' ''domain'' (newElement ''Domain''))
          (gridsCollections spec) = Inr (d, cs)"
    and 2: "specB = spec \<lparr> gridsCollections := cs \<rparr>"
    by (auto simp: Build_def Let_def bindE_eq_Inr)
  from buildCollections_contiguous_unchanged [OF _ 1] assms(1) have "cs = gridsCollections spec"
    by simp
  with 2 show ?thesis by simp
qed

text \<open>The only failure of \<open>Build\<close> is \<open>front()\<close> of an empty vector of grids.\<close>

lemma timeVectorOf_error: "timeVectorOf m ks = Inl e \<Longrightarrow> e = OutOfRange"
  by (induction ks) (auto simp: bindE_def front_def split: sum.splits list.splits)

lemma buildCollection_error:
  "buildCollection hdr de c = Inl e \<Longrightarrow> e = OutOfRange"
  by (auto simp: buildCollection_def Let_def bindE_def front_def
      split: sum.splits list.splits if_splits prod.splits dest: timeVectorOf_error)

lemma buildCollections_error:
  "buildCollections hdr de cs = Inl e \<Longrightarrow> e = OutOfRange"
  by (induction cs arbitrary: de)
     (auto simp: bindE_def split: sum.splits prod.splits dest: buildCollection_error)

lemma Build_error: "Build hdr spec = Inl e \<Longrightarrow> e = OutOfRange"
  by (auto simp: Build_def Let_def bindE_def split: sum.splits prod.splits
      dest: buildCollections_error)

text \<open>
  Claim C6. \<open>WriteData\<close> appends one data item to its element. With a time dimension
  it is a hyperslab of dimensions \<open>(1, GetDof(), GetDimension())\<close> with two children:
  the selection, whose text is start \<open>(timeOffset, 0, componentOffset)\<close>, stride
  \<open>(1, 1, componentStride)\<close> and count \<open>(1, GetDof(), GetDimension())\<close>, and then the
  full array, with the dimensions of the shape and the address \<open>file:path\<close>. Without
  a time dimension it is one item without children, with the dimensions of the shape
  and the address \<open>file:path\<close>.
\<close>

theorem WriteData_addressing:
  "(hasTimeDimension fd \<longrightarrow>
      (let slab = last (children (WriteData hdr element fd));
           sel = children slab ! 0;
           full = children slab ! 1
       in children (WriteData hdr element fd) = children element @ [slab]
         \<and> length (children slab) = 2
         \<and> attribute slab ''ItemType'' = Some ''HyperSlab''
         \<and> attribute slab ''Dimensions'' = Some (Join hdr [1, GetDof hdr fd, GetDimension fd])
         \<and> elementValue sel =
             Join hdr [timeOffset fd, 0, componentOffset fd] @ '' ''
             @ Join hdr [1, 1, componentStride fd] @ '' ''
             @ Join hdr [1, GetDof hdr fd, GetDimension fd]
         \<and> children sel = []
         \<and> attribute full ''Dimensions'' = Some (JoinVector hdr (shape fd))
         \<and> elementValue full = file' (location fd) @ '':'' @ path (location fd)
         \<and> children full = []))
   \<and> (\<not> hasTimeDimension fd \<longrightarrow>
      (let item = last (children (WriteData hdr element fd))
       in children (WriteData hdr element fd) = children element @ [item]
         \<and> children item = []
         \<and> attribute item ''Dimensions'' = Some (JoinVector hdr (shape fd))
         \<and> elementValue item = file' (location fd) @ '':'' @ path (location fd)))"
  by (simp add: WriteData_def HasTimeDimension_def hyperSlabItem_def directItem_def Let_def)

theorem WriteData_addressing_witness:
  "elementValue (children (last (children
       (WriteData exampleHeader (newElement ''Attribute'') timeField))) ! 0)
     = ''2 0 1 1 1 3 1 5 1''
   \<and> attribute (last (children
       (WriteData exampleHeader (newElement ''Attribute'') timeField))) ''Dimensions''
     = Some ''1 5 1''
   \<and> attribute (last (children
       (WriteData exampleHeader (newElement ''Geometry'') (geometry exampleGrid)))) ''Dimensions''
     = Some ''10 3''
   \<and> elementValue (last (children
       (WriteData exampleHeader (newElement ''Geometry'') (geometry exampleGrid))))
     = ''mesh.h5:/geometry/vertices''"
proof -
  have t: "hasTimeDimension timeField" and g: "\<not> hasTimeDimension (geometry exampleGrid)"
    by (simp_all add: timeField_def exampleGrid_def)
  show ?thesis
    using WriteData_addressing [of timeField exampleHeader "newElement ''Attribute''"]
      WriteData_addressing [of "geometry exampleGrid" exampleHeader "newElement ''Geometry''"] t g
    by (simp add: Let_def timeField_def exampleGrid_def exampleHeader_def GetDimension_def
        joinWith_def to_string.simps digit_def)
qed

text \<open>
  Claim C1, as the code has it. The first child of the grid that \<open>GenerateSpaceGrid\<close>
  makes is the topology element. Its \<open>TopologyType\<close> is the string of \<open>cellMap\<close> for the
  pair of dimension and corners when the table has the pair. When it has not, nothing
  fails: \<open>cellMap[d][c]\<close> yields the empty string, and that is the \<open>TopologyType\<close>;
  where \<open>Build\<close> fails at all, it is in \<open>front()\<close> of an empty vector of grids.
\<close>

theorem topology_type_lookup:
  "(let top = children (GenerateSpaceGrid hdr td gd nm) ! 0 in
     elementName top = ''Topology''
     \<and> (\<forall>s. cellMapFind (dimension td) (numberCorners td) = Some s
             \<longrightarrow> attribute top ''TopologyType'' = Some s)
     \<and> (cellMapFind (dimension td) (numberCorners td) = None
             \<longrightarrow> attribute top ''TopologyType'' = Some []))
   \<and> (Build hdr spec = Inl e \<longrightarrow> e = OutOfRange)"
  using Build_error [of hdr spec e]
  by (simp add: GenerateSpaceGrid_def Let_def WriteCells_def cellMapSubscript_def
      tableSubscript_def cellMapFind_def split: option.splits)

theorem topology_type_lookup_witness:
  "cellMapFind 3 4 = Some ''Tetrahedron''
   \<and> attribute (children (GenerateSpaceGrid exampleHeader (topology exampleGrid)
                   (geometry exampleGrid) ''domain'') ! 0) ''TopologyType'' = Some ''Tetrahedron''
   \<and> cellMapFind 3 5 = None
   \<and> attribute (children (GenerateSpaceGrid exampleHeader
                   ((topology exampleGrid) \<lparr> numberCorners := 5 \<rparr>)
                   (geometry exampleGrid) ''domain'') ! 0) ''TopologyType'' = Some []
   \<and> Build exampleHeader \<lparr> gridsCollections = [hollowCollection] \<rparr> = Inl OutOfRange"
proof -
  have a: "cellMapFind 3 4 = Some ''Tetrahedron''" and b: "cellMapFind 3 5 = None"
    by (simp_all add: cellMapFind_def cellMap_def)
  have c: "Build exampleHeader \<lparr> gridsCollections = [hollowCollection] \<rparr> = Inl OutOfRange"
    by (simp add: hollowCollection_def Build_def buildCollection_def mapSubscript_def
        front_def Let_def)
  show ?thesis
    using a b c
      topology_type_lookup [of exampleHeader "topology exampleGrid" "geometry exampleGrid"
        "''domain''" "\<lparr> gridsCollections = [hollowCollection] \<rparr>" OutOfRange]
      topology_type_lookup [of exampleHeader "(topology exampleGrid) \<lparr> numberCorners := 5 \<rparr>"
        "geometry exampleGrid" "''domain''" "\<lparr> gridsCollections = [hollowCollection] \<rparr>" OutOfRange]
    by (simp add: Let_def exampleGrid_def)
qed

text \<open>
  Claim C1 as stated fails: the pair (3, 5) is not in the table, and \<open>Build\<close> returns
  a document, whose one topology element has the empty \<open>TopologyType\<close>.
\<close>

theorem unmapped_topology_counterexample:
  "cellMapFind 3 5 = None
   \<and> \<not> isl (Build exampleHeader pyramidSpecification)
   \<and> topologyTypes (fst (projr (Build exampleHeader pyramidSpecification))) = [Some []]"
  by (simp add: pyramidSpecification_def exampleGrid_def exampleHeader_def builder_defs
        timeLoop.simps cellMapFind_def topologyTypes_def attribute_def joinWith_def
        to_string.simps digit_def)

text \<open>
  Claim C2 fails on the code. The collection of \<open>gappedSpecification\<close> has the one time
  index 1, with one grid. Line 67 reads \<open>grids[timeIndex]\<close> with the loop counter 0
  instead of the sorted key: the document has no grid at all, the grid under index 1
  is never visited.
\<close>

theorem gapped_index_not_visited:
  "map fst (grids (hd (gridsCollections gappedSpecification))) = [1]
   \<and> \<not> isl (Build exampleHeader gappedSpecification)
   \<and> elementsNamed ''Grid'' (fst (projr (Build exampleHeader gappedSpecification))) = []"
  by (simp add: gappedSpecification_def exampleGrid_def exampleHeader_def builder_defs
        timeLoop.simps)

text \<open>
  Claim C3 fails on the code. The same access \<open>grids[timeIndex]\<close> of line 67 inserts the
  absent key 0 with an empty vector into the map of the collection: after \<open>Build\<close> the
  specification has two time indices where it had one.
\<close>

theorem gapped_specification_changed:
  "\<not> isl (Build exampleHeader gappedSpecification)
   \<and> snd (projr (Build exampleHeader gappedSpecification)) =
       \<lparr> gridsCollections = [\<lparr> name' = [], grids = [(0, []), (1, [exampleGrid])] \<rparr>] \<rparr>
   \<and> snd (projr (Build exampleHeader gappedSpecification)) \<noteq> gappedSpecification"
  by (simp add: gappedSpecification_def exampleHeader_def builder_defs timeLoop.simps)

section \<open>Properties of the extractor\<close>

lemma set_mapInsert: "set (mapInsert k v m) = insert (k, v) (set m)"
  by (induction m) (auto split: if_splits)

lemma update_mapInsert:
  "k \<notin> fst ` set m \<Longrightarrow> AList.update k v (mapInsert k w m) = mapInsert k v m"
  by (induction m) auto

lemma set_update_subset: "set (AList.update k v m) \<subseteq> insert (k, v) (set m)"
  by (induction m) auto

lemma set_mapPushBack:
  "set (mapPushBack m k g) \<subseteq> insert (k, fst (mapSubscript m k) @ [g]) (set m)"
proof (cases "map_of m k")
  case None
  then have "k \<notin> fst ` set m" by (simp add: map_of_eq_None_iff)
  with None show ?thesis
    by (simp add: mapPushBack_def mapSubscript_def update_mapInsert set_mapInsert)
next
  case (Some v)
  then show ?thesis
    using set_update_subset [of k "v @ [g]" m]
    by (simp add: mapPushBack_def mapSubscript_def)
qed

lemma nonEmptyGrids_push:
  "nonEmptyGrids c \<Longrightarrow> nonEmptyGrids (c \<lparr> grids := mapPushBack (grids c) k g \<rparr>)"
  using set_mapPushBack [of "grids c" k g]
  by (auto simp: nonEmptyGrids_def list_all_iff)

lemma meshTimeLoop_nonEmpty:
  "nonEmptyGrids c \<Longrightarrow> meshTimeLoop hdr r geo tobj f post tms i c = Inr c' \<Longrightarrow> nonEmptyGrids c'"
proof (induction tms arbitrary: i c)
  case Nil
  then show ?case by simp
next
  case (Cons tm tms)
  from Cons.prems(2) obtain g where
    "meshTimeLoop hdr r geo tobj f post tms (i + 1)
       (c \<lparr> grids := mapPushBack (grids c) i g \<rparr>) = Inr c'"
    by (auto split: sum.splits)
  with Cons.IH [OF nonEmptyGrids_push [OF Cons.prems(1)]] show ?case by blast
qed

lemma particleTimeLoop_nonEmpty:
  "nonEmptyGrids c \<Longrightarrow> particleTimeLoop hdr r f tms i c = Inr c' \<Longrightarrow> nonEmptyGrids c'"
proof (induction tms arbitrary: i c)
  case Nil
  then show ?case by simp
next
  case (Cons tm tms)
  from Cons.prems(2) obtain g where
    "particleTimeLoop hdr r f tms (i + 1) (c \<lparr> grids := mapPushBack (grids c) i g \<rparr>) = Inr c'"
    by (auto split: sum.splits)
  with Cons.IH [OF nonEmptyGrids_push [OF Cons.prems(1)]] show ?case by blast
qed

lemma topologyLoop_nonEmpty:
  "nonEmptyGrids c \<Longrightarrow> topologyLoop hdr r geo f i c = Inr c' \<Longrightarrow> nonEmptyGrids c'"
proof (induction hdr r geo f i c rule: topologyLoop.induct)
  case (1 hdr r geo f i c)
  show ?case
  proof (cases "FindPetscHdfChild r (''topology'' @ GetTopologyPostfix hdr i)")
    case None
    with "1.prems" show ?thesis by (simp add: topologyLoop.simps)
  next
    case (Some tobj)
    with "1.prems"(2) obtain c1 where
      c1: "meshTimeLoop hdr r geo tobj f (GetTopologyPostfix hdr i) (timeValues r) 0 c = Inr c1"
      and lt: "i < 2147483647"
      and rest: "topologyLoop hdr r geo f (i + 1) c1 = Inr c'"
      by (subst (asm) topologyLoop.simps) (auto split: sum.splits if_splits)
    from "1.IH" [OF Some c1 lt meshTimeLoop_nonEmpty [OF "1.prems"(1) c1] rest]
    show ?thesis .
  qed
qed

lemma FromPetscHdf_nonEmpty:
  assumes "FromPetscHdf hdr r = Inr spec"
  shows "list_all nonEmptyGrids (gridsCollections spec)"
proof -
  have e: "nonEmptyGrids \<lparr> name' = n, grids = [] \<rparr>" for n
    by (simp add: nonEmptyGrids_def)
  from assms obtain cs cs' where
    m: "(case FindPetscHdfChild r ''geometry'' of
           Some geometryObject \<Rightarrow>
             bindE (topologyLoop hdr r geometryObject (Name r) 0
                      \<lparr> name' = defaultCollectionName hdr, grids = [] \<rparr>)
               (\<lambda>mainGrid. Inr [mainGrid])
         | None \<Rightarrow> Inr []) = Inr cs"
    and p: "(if Contains r ''particles'' \<or> Contains r ''particle_fields''
             then bindE (particleTimeLoop hdr r (Name r) (timeValues r) 0
                           \<lparr> name' = ''particle_domain'', grids = [] \<rparr>)
                    (\<lambda>particleGrid. Inr (cs @ [particleGrid]))
             else Inr cs) = Inr cs'"
    and s: "spec = \<lparr> gridsCollections = cs' \<rparr>"
    by (auto simp: FromPetscHdf_def Let_def bindE_eq_Inr)
  from m have 1: "list_all nonEmptyGrids cs"
    by (auto simp: bindE_eq_Inr split: option.splits dest: topologyLoop_nonEmpty [OF e])
  from p 1 have "list_all nonEmptyGrids cs'"
    by (auto simp: bindE_eq_Inr split: if_splits dest: particleTimeLoop_nonEmpty [OF e])
  with s show ?thesis by simp
qed

lemma updateBack_all:
  "(\<And>c. P c \<Longrightarrow> P (f c)) \<Longrightarrow> list_all P cs \<Longrightarrow> list_all P (updateBack f cs)"
  by (induction f cs rule: updateBack.induct) auto

lemma length_updateBack [simp]: "length (updateBack f cs) = length cs"
  by (induction f cs rule: updateBack.induct) auto

lemma ensureBack_all: "list_all nonEmptyGrids cs \<Longrightarrow> list_all nonEmptyGrids (ensureBack hdr cs)"
  by (simp add: ensureBack_def nonEmptyGrids_def)

lemma length_ensureBack: "length cs \<le> 1 \<Longrightarrow> length (ensureBack hdr cs) = 1"
  by (cases cs) (simp_all add: ensureBack_def)

lemma push_wellFormed:
  "wellFormed cs \<Longrightarrow>
   wellFormed (updateBack (\<lambda>c. c \<lparr> grids := mapPushBack (grids c) k g \<rparr>) cs)"
  by (simp add: wellFormed_def updateBack_all nonEmptyGrids_push)

lemma topologyLoopAt_wellFormed:
  "wellFormed cs \<Longrightarrow> topologyLoopAt hdr r geo k i cs = Inr cs' \<Longrightarrow> wellFormed cs'"
proof (induction hdr r geo k i cs rule: topologyLoopAt.induct)
  case (1 hdr r geo k i cs)
  show ?case
  proof (cases "FindPetscHdfChild r (''topology'' @ GetTopologyPostfix hdr i)")
    case None
    with "1.prems" show ?thesis by (simp add: topologyLoopAt.simps)
  next
    case (Some tobj)
    with "1.prems"(2) obtain g where
      g: "bindE (subscript (timeValues r) 0)
            (\<lambda>tm. meshGridDescription hdr r geo tobj (Name r) tm [] 0) = Inr g"
      and lt: "i < 2147483647"
      and rest: "topologyLoopAt hdr r geo k (i + 1)
          (updateBack (\<lambda>c. c \<lparr> grids := mapPushBack (grids c) k g \<rparr>) cs) = Inr cs'"
      by (subst (asm) topologyLoopAt.simps) (auto split: sum.splits if_splits)
    from "1.IH" [OF Some g lt push_wellFormed [OF "1.prems"(1)] rest]
    show ?thesis .
  qed
qed

lemma particleLoopAt_wellFormed:
  "wellFormed cs \<Longrightarrow> particleLoopAt hdr r k tms cs = Inr cs' \<Longrightarrow> wellFormed cs'"
proof (induction tms arbitrary: cs)
  case Nil
  then show ?case by simp
next
  case (Cons tm tms)
  from Cons.prems(2) obtain g where
    "particleLoopAt hdr r k tms
       (updateBack (\<lambda>c. c \<lparr> grids := mapPushBack (grids c) k g \<rparr>) cs) = Inr cs'"
    by (auto split: sum.splits)
  with Cons.IH [OF push_wellFormed [OF Cons.prems(1)]] show ?case by blast
qed

lemma ensureBack_wellFormed: "wellFormed cs \<Longrightarrow> wellFormed (ensureBack hdr cs)"
  by (simp add: wellFormed_def ensureBack_all length_ensureBack)

lemma rename_wellFormed:
  "wellFormed cs \<Longrightarrow> wellFormed (updateBack (\<lambda>c. c \<lparr> name' := n \<rparr>) cs)"
  by (auto simp: wellFormed_def nonEmptyGrids_def intro!: updateBack_all)

lemma consumeRoot_wellFormed:
  assumes "wellFormed cs" and "consumeRoot hdr r k cs = Inr cs'"
  shows "wellFormed cs'"
proof -
  from assms(2) obtain cs1 where
    m: "(case FindPetscHdfChild r ''geometry'' of
           Some geometryObject \<Rightarrow> topologyLoopAt hdr r geometryObject k 0 (ensureBack hdr cs)
         | None \<Rightarrow> Inr cs) = Inr cs1"
    and p: "(if Contains r ''particles'' \<or> Contains r ''particle_fields''
             then particleLoopAt hdr r k (timeValues r)
                    (updateBack (\<lambda>c. c \<lparr> name' := ''particle_domain'' \<rparr>) (ensureBack hdr cs1))
             else Inr cs1) = Inr cs'"
    by (auto simp: consumeRoot_def bindE_eq_Inr)
  from m assms(1) have 1: "wellFormed cs1"
    by (auto split: option.splits
        dest: topologyLoopAt_wellFormed [OF ensureBack_wellFormed [OF assms(1)]])
  from p show ?thesis
    using 1 particleLoopAt_wellFormed [OF rename_wellFormed [OF ensureBack_wellFormed [OF 1]]]
    by (auto split: if_splits)
qed

lemma consumeLoop_wellFormed:
  fixes consumer :: "'s \<Rightarrow> HdfObject option \<times> 's"
  assumes "consumeLoop hdr consumer st k cs = Some res"
  shows "wellFormed cs \<longrightarrow> (case res of Inr cs' \<Rightarrow> wellFormed cs' | Inl e \<Rightarrow> True)"
proof (rule consumeLoop.raw_induct
    [where P = "\<lambda>hdr consumer st k cs res.
       wellFormed cs \<longrightarrow> (case res of Inr cs' \<Rightarrow> wellFormed cs' | Inl e \<Rightarrow> True)",
     OF _ assms])
  fix loop :: "Header \<Rightarrow> ('s \<Rightarrow> HdfObject option \<times> 's) \<Rightarrow> 's \<Rightarrow> nat
      \<Rightarrow> GridCollectionDescription list \<Rightarrow> (error + GridCollectionDescription list) option"
  fix h :: Header and c :: "'s \<Rightarrow> HdfObject option \<times> 's" and s :: 's and i :: nat
    and cs0 :: "GridCollectionDescription list" and y :: "error + GridCollectionDescription list"
  assume IH: "\<And>h c s i cs0 y. loop h c s i cs0 = Some y \<Longrightarrow>
      wellFormed cs0 \<longrightarrow> (case y of Inr cs' \<Rightarrow> wellFormed cs' | Inl e \<Rightarrow> True)"
  assume body: "(case c s of
        (None, st') \<Rightarrow> Some (Inr cs0)
      | (Some hdf5Object, st') \<Rightarrow>
          (case consumeRoot h hdf5Object i cs0 of
             Inl e \<Rightarrow> Some (Inl e)
           | Inr collections' \<Rightarrow> loop h c st' (i + 1) collections')) = Some y"
  show "wellFormed cs0 \<longrightarrow> (case y of Inr cs' \<Rightarrow> wellFormed cs' | Inl e \<Rightarrow> True)"
  proof
    assume wf: "wellFormed cs0"
    obtain r s' where cs: "c s = (r, s')" by (cases "c s")
    show "case y of Inr cs' \<Rightarrow> wellFormed cs' | Inl e \<Rightarrow> True"
    proof (cases r)
      case None
      with cs body wf show ?thesis by auto
    next
      case (Some rootObj)
      show ?thesis
      proof (cases "consumeRoot h rootObj i cs0")
        case (Inl e)
        with cs Some body show ?thesis by auto
      next
        case (Inr cs1)
        with cs Some body have "loop h c s' (i + 1) cs1 = Some y" by simp
        from IH [OF this] consumeRoot_wellFormed [OF wf Inr]
        show ?thesis by blast
      qed
    qed
  qed
qed

lemmas extractor_defs = FromPetscHdf_def meshGridDescription_def geometryFrom_def
  topologyFrom_def hybridTopologyFrom_def fieldsFromGroup_def FindPetscHdfChild_def child_def
  Get_def Contains_def timeValues_def subscript_def lastElem_def AttributeULL_def
  particleGridDescription_def mapPushBack_def mapSubscript_def GetDimension_def
  consumeRoot_def ensureBack_def FromPetscHdfConsumer_def Let_def

lemmas root_defs = emptyRoot_def meshRoot_def hybridRoot_def bothRoot_def geometryGroup_def verticesNode_def
  topologyGroup_def cellsNode_def hybridGroup_def particlesGroup_def exampleHeader_def
  emptyGrid_def exampleGrid_def exampleParticleGrid_def to_string.simps digit_def

text \<open>
  The specification with the single time index 1 comes out of the extractor: the first
  root has no domain and only advances the counter.
\<close>

lemma gapped_from_supplier:
  "FromPetscHdfConsumer exampleHeader fromList [emptyRoot, meshRoot] = Some (Inr gappedSpecification)"
  by (simp add: extractor_defs root_defs gappedSpecification_def topologyLoopAt.simps
      consumeLoop.simps)

text \<open>
  Claim C5 fails on the code. The root \<open>hybridRoot []\<close> has the groups \<open>geometry\<close>,
  \<open>topology\<close> (with \<open>cells\<close>) and \<open>hybrid_topology\<close> (with \<open>hcells\<close> of shape 2 by 6).
  The extractor finds \<open>hybrid_topology\<close> and then asks the group \<open>topology\<close> for
  \<open>hcells\<close>, which it has not: a container-access error. When \<open>topology\<close> has a node
  \<open>hcells\<close> of its own (shape 7 by 3), that node, not the one of \<open>hybrid_topology\<close>,
  becomes the hybrid topology.
\<close>

theorem hybrid_topology_from_topology_group:
  "FromPetscHdf exampleHeader (hybridRoot []) = Inl ContainerAccess
   \<and> FromPetscHdf exampleHeader
        (hybridRoot [HdfObject ''hcells'' ''/topology/hcells'' [7, 3] [] [] []]) =
      Inr \<lparr> gridsCollections = [\<lparr> name' = [], grids = [(0, [exampleGrid \<lparr> hybridTopology :=
         \<lparr> location' = \<lparr> path = ''/topology/hcells'', file' = ''mesh.h5'' \<rparr>,
           number = 7, numberCorners = 3, dimension = 0 \<rparr> \<rparr>])] \<rparr>] \<rparr>"
  by (simp add: extractor_defs root_defs topologyLoop.simps)

text \<open>
  Claim C4 fails on the code. A supplier hands out one root that has a mesh and
  particles. Both blocks of the loop body write to \<open>gridsCollections.back()\<close>: the
  specification has one collection, renamed to \<open>particle_domain\<close>, and its time index
  0 holds the mesh grid and the particle grid. The single-root overload makes two
  collections of the same root.
\<close>

theorem consumer_merges_mesh_and_particles:
  "FromPetscHdfConsumer exampleHeader fromList [bothRoot] =
     Some (Inr \<lparr> gridsCollections =
       [\<lparr> name' = ''particle_domain'', grids = [(0, [exampleGrid, exampleParticleGrid])] \<rparr>] \<rparr>)
   \<and> FromPetscHdf exampleHeader bothRoot =
     Inr \<lparr> gridsCollections =
       [\<lparr> name' = [], grids = [(0, [exampleGrid])] \<rparr>,
        \<lparr> name' = ''particle_domain'', grids = [(0, [exampleParticleGrid])] \<rparr>] \<rparr>"
  by (simp add: extractor_defs root_defs topologyLoop.simps topologyLoopAt.simps consumeLoop.simps)

section \<open>The invariant of the extractor's output\<close>

lemma front_nonempty: "xs \<noteq> [] \<Longrightarrow> \<exists>x. front xs = Inr x"
  by (cases xs) (simp_all add: front_def)

lemma mapSubscript_present:
  assumes "nonEmptyGrids c" and "k \<in> fst ` set (grids c)"
  shows "fst (mapSubscript (grids c) k) \<noteq> []"
proof -
  from assms(2) obtain v where v: "map_of (grids c) k = Some v"
    by (metis map_of_eq_None_iff not_Some_eq)
  then have "(k, v) \<in> set (grids c)" by (rule map_of_SomeD)
  with assms(1) have "v \<noteq> []" by (auto simp: nonEmptyGrids_def list_all_iff)
  with v show ?thesis by (simp add: mapSubscript_def)
qed

lemma timeVectorOf_defined:
  "(\<And>k. k \<in> set ks \<Longrightarrow> fst (mapSubscript m k) \<noteq> []) \<Longrightarrow> \<exists>ts. timeVectorOf m ks = Inr ts"
proof (induction ks)
  case Nil
  then show ?case by simp
next
  case (Cons k ks)
  from Cons.prems [of k] obtain g where "front (fst (mapSubscript m k)) = Inr g"
    using front_nonempty by fastforce
  moreover from Cons obtain ts where "timeVectorOf m ks = Inr ts" by auto
  ultimately show ?case by simp
qed

lemma buildCollection_defined:
  assumes "nonEmptyGrids c"
  shows "\<exists>r. buildCollection hdr de c = Inr r"
proof -
  let ?ks = "sort (map fst (grids c))"
  have in_keys: "fst (mapSubscript (grids c) k) \<noteq> []" if "k \<in> set ?ks" for k
    using that mapSubscript_present [OF assms, of k] by simp
  from timeVectorOf_defined [of ?ks "grids c"] in_keys
  obtain ts where ts: "timeVectorOf (grids c) ?ks = Inr ts" by blast
  have "\<exists>u. (if grids c = [] \<or> ?ks = [] then Inr False
             else bindE (front (fst (mapSubscript (grids c) (?ks ! 0))))
                    (\<lambda>g. Inr (\<not> time g < 0))) = Inr u"
  proof (cases "grids c = [] \<or> ?ks = []")
    case True
    then show ?thesis by auto
  next
    case False
    then have "?ks ! 0 \<in> set ?ks" by (metis length_greater_0_conv nth_mem)
    from front_nonempty [OF in_keys [OF this]] False show ?thesis by auto
  qed
  then obtain u where u: "(if grids c = [] \<or> ?ks = [] then Inr False
             else bindE (front (fst (mapSubscript (grids c) (?ks ! 0))))
                    (\<lambda>g. Inr (\<not> time g < 0))) = Inr u" ..
  show ?thesis
    unfolding buildCollection_def Let_def u ts
    by (simp split: prod.splits)
qed

lemma buildCollections_defined:
  "list_all nonEmptyGrids cs \<Longrightarrow> \<exists>r. buildCollections hdr de cs = Inr r"
proof (induction cs arbitrary: de)
  case Nil
  then show ?case by simp
next
  case (Cons c cs)
  from Cons.prems buildCollection_defined [of c hdr de]
  obtain d' c' where 1: "buildCollection hdr de c = Inr (d', c')" by auto
  from Cons.IH [of d'] Cons.prems obtain d'' cs' where
    "buildCollections hdr d' cs = Inr (d'', cs')" by auto
  with 1 show ?case by simp
qed

lemma Build_defined:
  assumes "list_all nonEmptyGrids (gridsCollections spec)"
  shows "\<not> isl (Build hdr spec)"
proof -
  from buildCollections_defined [OF assms]
  obtain d cs where
    "buildCollections hdr (setAttribute ''Name'' ''domain'' (newElement ''Domain''))
       (gridsCollections spec) = Inr (d, cs)"
    by fastforce
  then show ?thesis by (simp add: Build_def Let_def)
qed

lemma buildCollection_empty_front:
  assumes "grids c \<noteq> []"
    and "fst (mapSubscript (grids c) (hd (sort (map fst (grids c))))) = []"
  shows "buildCollection hdr de c = Inl OutOfRange"
proof -
  from assms(1) have ne: "sort (map fst (grids c)) \<noteq> []" by (cases "grids c") auto
  then have "sort (map fst (grids c)) ! 0 = hd (sort (map fst (grids c)))"
    by (simp add: hd_conv_nth)
  with assms ne show ?thesis
    by (simp add: buildCollection_def Let_def front_def)
qed

text \<open>
  Claim C10. In every specification that either overload of \<open>FromPetscHdf\<close> returns,
  every time index of every collection holds at least one grid. The builder relies on
  it: on such a specification \<open>Build\<close> returns a document, whereas a collection whose
  first sorted time index holds no grid makes line 53 take \<open>front()\<close> of an empty
  vector.
\<close>

theorem extractor_grids_nonempty:
  fixes consumer :: "'s \<Rightarrow> HdfObject option \<times> 's"
  shows "(FromPetscHdf hdr rootObject = Inr spec
            \<longrightarrow> list_all nonEmptyGrids (gridsCollections spec))
   \<and> (FromPetscHdfConsumer hdr consumer st = Some (Inr specB)
            \<longrightarrow> list_all nonEmptyGrids (gridsCollections specB))
   \<and> (list_all nonEmptyGrids (gridsCollections specC) \<longrightarrow> \<not> isl (Build hdr specC))
   \<and> (grids c \<noteq> [] \<and> fst (mapSubscript (grids c) (hd (sort (map fst (grids c))))) = []
            \<longrightarrow> buildCollection hdr domainElement c = Inl OutOfRange)"
proof -
  have 2: "list_all nonEmptyGrids (gridsCollections specB)"
    if "FromPetscHdfConsumer hdr consumer st = Some (Inr specB)"
  proof -
    from that obtain res where res: "consumeLoop hdr consumer st 0 [] = Some res"
      and m: "map_sum id (\<lambda>collections. \<lparr> gridsCollections = collections \<rparr>) res = Inr specB"
      by (auto simp: FromPetscHdfConsumer_def)
    from m obtain cs where "res = Inr cs" and s: "specB = \<lparr> gridsCollections = cs \<rparr>"
      by (cases res) auto
    with res have cs: "consumeLoop hdr consumer st 0 [] = Some (Inr cs)" by simp
    have "wellFormed []" by (simp add: wellFormed_def)
    with consumeLoop_wellFormed [OF cs] s show ?thesis by (simp add: wellFormed_def)
  qed
  from 2 FromPetscHdf_nonEmpty Build_defined buildCollection_empty_front
  show ?thesis by blast
qed


theorem extractor_grids_nonempty_witness:
  "FromPetscHdf exampleHeader meshRoot = Inr meshSpecification
   \<and> FromPetscHdfConsumer exampleHeader fromList [meshRoot] = Some (Inr meshSpecification)
   \<and> list_all nonEmptyGrids (gridsCollections meshSpecification)
   \<and> \<not> isl (Build exampleHeader meshSpecification)
   \<and> grids hollowCollection \<noteq> []
   \<and> fst (mapSubscript (grids hollowCollection)
            (hd (sort (map fst (grids hollowCollection))))) = []
   \<and> buildCollection exampleHeader (newElement ''Domain'') hollowCollection = Inl OutOfRange"
proof -
  have a: "FromPetscHdf exampleHeader meshRoot = Inr meshSpecification"
    by (simp add: extractor_defs root_defs meshSpecification_def topologyLoop.simps)
  have b: "FromPetscHdfConsumer exampleHeader fromList [meshRoot] = Some (Inr meshSpecification)"
    by (simp add: extractor_defs root_defs meshSpecification_def topologyLoopAt.simps
        consumeLoop.simps)
  have c: "grids hollowCollection \<noteq> []
      \<and> fst (mapSubscript (grids hollowCollection)
            (hd (sort (map fst (grids hollowCollection))))) = []"
    by (simp add: hollowCollection_def mapSubscript_def)
  show ?thesis
    using a b c
      extractor_grids_nonempty [where hdr = exampleHeader and rootObject = meshRoot
        and spec = meshSpecification and consumer = fromList and st = "[meshRoot]"
        and specB = meshSpecification and specC = meshSpecification
        and c = hollowCollection and domainElement = "newElement ''Domain''"]
    by simp
qed

end
